theory Spec2Isabelle
  imports Main "HOL-Library.Word"
begin

unbundle bit_operations_syntax

section \<open>The file table (\<^verbatim>\<open>fs/file_table.c\<close>): data model\<close>

text \<open>
  Pointers are addresses (natural numbers); a pointer field that may be NULL is an
  \<open>option\<close>, with \<open>None\<close> for NULL. A dereference of NULL, or of a
  \<open>struct file\<close> that is not allocated, is a fault: every operation that dereferences
  returns \<open>kstate option\<close>, and \<open>None\<close> is the fault.
\<close>

type_synonym ptr = nat

text \<open>The two members of \<open>struct file_operations\<close> that \<open>__fput\<close> tests
  against NULL: \<open>True\<close> when the member is set.\<close>

record file_operations =
  fop_fasync :: bool
  fop_release :: bool

text \<open>\<open>struct file\<close>, the fields the file table reads or writes. \<open>f_count\<close> is an
  \<open>atomic_long_t\<close>: a machine word whose width \<open>'l\<close> is that of \<open>long\<close>.\<close>

record (overloaded) ('l::len) struct_file =
  f_count :: "'l word"
  f_flags :: "32 word"
  f_mode :: "32 word"
  f_path_dentry :: "ptr option"
  f_path_mnt :: "ptr option"
  f_inode :: "ptr option"
  f_op :: "file_operations option"
  f_cred :: "ptr option"
  f_owner_pid :: "ptr option"
  f_mnt_write_state :: "8 word"

text \<open>\<open>struct inode\<close>: the mode, the character device, and the two access counters
  (both \<open>atomic_t\<close>).\<close>

record inode =
  i_mode :: "16 word"
  i_cdev :: "ptr option"
  i_writecount :: "32 word"
  i_readcount :: "32 word"

text \<open>Modelled from the spec: the Global Counter, "an approximate, per-execution-unit
  sharded counter of live handle objects, supporting fast increment/decrement and a slow,
  exact aggregate read" (\<open>struct percpu_counter\<close>; \<^verbatim>\<open>lib/percpu_counter.c\<close> is not among the
  sources). \<open>pc_count\<close> is the shared approximate value, \<open>pc_counters c\<close> the
  delta held by CPU \<open>c\<close>, \<open>pc_cpus\<close> the number of CPUs that the exact read sums
  over. The values are unbounded integers: no claim depends on their overflow.\<close>

record percpu_counter =
  pc_count :: int
  pc_counters :: "nat \<Rightarrow> int"
  pc_cpus :: nat

text \<open>Every call that leaves the file table is recorded, in the order of execution, with
  its arguments; so are the three stores that clear the file's path.\<close>

datatype event =
    E_fsnotify_close ptr
  | E_eventpoll_release ptr
  | E_locks_remove_file ptr
  | E_fasync int ptr int
  | E_release "ptr option" ptr
  | E_security_file_free ptr
  | E_ima_file_free ptr
  | E_cdev_put ptr
  | E_fops_put "file_operations option"
  | E_put_pid "ptr option"
  | E_i_readcount_dec ptr
  | E_put_write_access ptr
  | E_mnt_drop_write ptr
  | E_file_release_write ptr
  | E_clear_dentry ptr
  | E_clear_mnt ptr
  | E_clear_inode ptr
  | E_percpu_counter_dec
  | E_percpu_counter_inc
  | E_file_check_state ptr
  | E_call_rcu ptr
  | E_dput ptr
  | E_mntput "ptr option"
  | E_put_cred ptr
  | E_kmem_cache_free ptr
  | E_kmem_cache_zalloc ptr
  | E_get_cred ptr
  | E_security_file_alloc ptr
  | E_eventpoll_init_file ptr
  | E_pr_info nat

text \<open>The kernel state the file table works on: the slab of file structures
  (\<open>None\<close>: not allocated), the dentries' inode pointers, the inodes, the mounts' writer
  counts, the counter \<open>nr_files\<close> with its batch size, \<open>files_stat.max_files\<close> (an
  \<open>unsigned long\<close>), the static \<open>old_max\<close> of \<open>get_empty_filp\<close> (a \<open>long\<close>),
  the CPU the caller runs on, the callbacks queued by \<open>call_rcu\<close> and not yet run, and
  the record of calls. A \<open>long\<close> and an \<open>unsigned long\<close> are words of the width
  \<open>'l\<close>; the order \<open>\<le>\<close> of words is the unsigned one, \<open>\<le>s\<close> the signed one.\<close>

record (overloaded) ('l::len) kstate =
  files :: "ptr \<Rightarrow> 'l struct_file option"
  d_inode :: "ptr \<Rightarrow> ptr option"
  inodes :: "ptr \<Rightarrow> inode"
  mnt_writers :: "ptr \<Rightarrow> int"
  nr_files :: percpu_counter
  percpu_counter_batch :: int
  max_files :: "'l word"
  old_max :: "'l word"
  cpu :: nat
  rcu_pending :: "ptr list"
  trace :: "event list"

definition log :: "event \<Rightarrow> ('l::len) kstate \<Rightarrow> 'l kstate" where
  "log e s = s\<lparr>trace := trace s @ [e]\<rparr>"

section \<open>Constants of the kernel headers\<close>

text \<open>Modelled from the spec: the mode bits "readable", "writable", "path-only" and the
  flag "async-notify-enabled" (include/linux/fs.h and the fcntl header are not among the
  sources); the values are the kernel's.\<close>

definition FMODE_READ :: "32 word" where "FMODE_READ = 0x1"
definition FMODE_WRITE :: "32 word" where "FMODE_WRITE = 0x2"
definition FMODE_PATH :: "32 word" where "FMODE_PATH = 0x4000"
definition FASYNC :: "32 word" where "FASYNC = 0x2000"

text \<open>Modelled from the spec: the "special (non-regular) kind" of resource
  (\<open>special_file\<close> and \<open>S_ISCHR\<close> of include/linux/stat.h and fs.h, not among the
  sources); the file-type bits are the kernel's.\<close>

definition S_IFMT :: "16 word" where "S_IFMT = 0xF000"
definition S_IFSOCK :: "16 word" where "S_IFSOCK = 0xC000"
definition S_IFBLK :: "16 word" where "S_IFBLK = 0x6000"
definition S_IFCHR :: "16 word" where "S_IFCHR = 0x2000"
definition S_IFIFO :: "16 word" where "S_IFIFO = 0x1000"

definition S_ISCHR :: "16 word \<Rightarrow> bool" where
  "S_ISCHR m = (m AND S_IFMT = S_IFCHR)"

definition special_file :: "16 word \<Rightarrow> bool" where
  "special_file m =
     (m AND S_IFMT = S_IFCHR \<or> m AND S_IFMT = S_IFBLK \<or>
      m AND S_IFMT = S_IFIFO \<or> m AND S_IFMT = S_IFSOCK)"

section \<open>The sharded counter\<close>

text \<open>Modelled from the spec: the fast approximate read of the Global Counter
  (\<open>percpu_counter_read_positive\<close>): the shared value, never negative.\<close>

definition percpu_counter_read_positive :: "percpu_counter \<Rightarrow> int" where
  "percpu_counter_read_positive fbc = (if pc_count fbc \<ge> 0 then pc_count fbc else 0)"

text \<open>Modelled from the spec: the "exact aggregate summation across all shards"
  (\<open>__percpu_counter_sum\<close>, and \<open>percpu_counter_sum_positive\<close>, never negative).\<close>

definition percpu_counter_sum :: "percpu_counter \<Rightarrow> int" where
  "percpu_counter_sum fbc = pc_count fbc + sum_list (map (pc_counters fbc) [0..<pc_cpus fbc])"

definition percpu_counter_sum_positive :: "percpu_counter \<Rightarrow> int" where
  "percpu_counter_sum_positive fbc =
     (let ret = percpu_counter_sum fbc in if ret < 0 then 0 else ret)"

text \<open>Modelled from the spec: the "fast increment/decrement" of the Global Counter
  (\<open>__percpu_counter_add\<close>): the amount goes to the delta of the running CPU, and a
  delta that reaches the batch size is folded into the shared value.\<close>

definition percpu_counter_add :: "int \<Rightarrow> nat \<Rightarrow> int \<Rightarrow> percpu_counter \<Rightarrow> percpu_counter" where
  "percpu_counter_add batch c amount fbc =
     (let cnt = pc_counters fbc c + amount in
      if cnt \<ge> batch \<or> cnt \<le> - batch
      then fbc\<lparr>pc_count := pc_count fbc + cnt, pc_counters := (pc_counters fbc)(c := 0)\<rparr>
      else fbc\<lparr>pc_counters := (pc_counters fbc)(c := cnt)\<rparr>)"

definition percpu_counter_inc :: "('l::len) kstate \<Rightarrow> 'l kstate" where
  "percpu_counter_inc s =
     log E_percpu_counter_inc
       (s\<lparr>nr_files := percpu_counter_add (percpu_counter_batch s) (cpu s) 1 (nr_files s)\<rparr>)"

definition percpu_counter_dec :: "('l::len) kstate \<Rightarrow> 'l kstate" where
  "percpu_counter_dec s =
     log E_percpu_counter_dec
       (s\<lparr>nr_files := percpu_counter_add (percpu_counter_batch s) (cpu s) (- 1) (nr_files s)\<rparr>)"

section \<open>Reclamation, the live count, and acquire\<close>

text \<open>\<open>file_free_rcu\<close>, the callback run after the grace period: \<open>put_cred\<close> of the
  file's credentials (a dereference of \<open>f_cred\<close>), then the return of the structure to
  the slab.\<close>

definition file_free_rcu :: "ptr \<Rightarrow> ('l::len) kstate \<Rightarrow> 'l kstate option" where
  "file_free_rcu a s =
     (case files s a of
        None \<Rightarrow> None
      | Some f \<Rightarrow>
          (case f_cred f of
             None \<Rightarrow> None
           | Some c \<Rightarrow>
               Some ((log (E_kmem_cache_free a) (log (E_put_cred c) s))
                       \<lparr>files := (files s)(a := None)\<rparr>)))"

text \<open>\<open>call_rcu(&f->f_u.fu_rcuhead, file_free_rcu)\<close>: the callback is queued, not run.\<close>

definition call_rcu :: "ptr \<Rightarrow> ('l::len) kstate \<Rightarrow> 'l kstate" where
  "call_rcu a s = log (E_call_rcu a) (s\<lparr>rcu_pending := rcu_pending s @ [a]\<rparr>)"

text \<open>\<open>file_free\<close>: the counter is decremented, the write state is checked (a warning
  only), and the callback is queued.\<close>

definition file_free :: "ptr \<Rightarrow> ('l::len) kstate \<Rightarrow> 'l kstate" where
  "file_free a s = call_rcu a (log (E_file_check_state a) (percpu_counter_dec s))"

text \<open>\<open>get_nr_files\<close> returns the approximate count as a \<open>long\<close>: the value read
  from the counter, cut to the width of \<open>long\<close>.\<close>

definition get_nr_files :: "('l::len) kstate \<Rightarrow> 'l word" where
  "get_nr_files s = word_of_int (percpu_counter_read_positive (nr_files s))"

definition get_max_files :: "('l::len) kstate \<Rightarrow> 'l word" where
  "get_max_files s = max_files s"

text \<open>What \<open>get_empty_filp\<close> asks of its surroundings: whether the caller is
  \<open>capable(CAP_SYS_ADMIN)\<close>, what \<open>kmem_cache_zalloc\<close> returns (\<open>None\<close>: NULL),
  the caller's credentials, what \<open>security_file_alloc\<close> returns, and the CPU on which
  the caller runs once that hook, which may sleep, has returned.\<close>

record env =
  capable_sys_admin :: bool
  zalloc_result :: "ptr option"
  current_cred :: ptr
  security_file_alloc_ret :: int
  cpu_after_hook :: nat

text \<open>\<open>get_empty_filp\<close> returns NULL on each of its three failure paths; the model
  names the path taken: the label \<open>over\<close>, the failed allocation, the label
  \<open>fail_sec\<close>. The initialisation of the two locks of the new file is not
  recorded.

  The first test compares the \<open>long\<close> of \<open>get_nr_files\<close> with the
  \<open>unsigned long\<close> \<open>max_files\<close>: C converts the \<open>long\<close> to
  \<open>unsigned long\<close>, so the comparison is the unsigned one of two words. The second test
  compares the exact sum, which \<open>percpu_counter_sum_positive\<close> returns in the
  counter's own 64-bit type and which is never negative, with \<open>max_files\<close>: the
  comparison is that of the two values. At the label \<open>over\<close> the \<open>long\<close> of
  \<open>get_nr_files\<close> is compared with the \<open>long\<close> \<open>old_max\<close>, signed.\<close>

datatype error = ResourceLimitExceeded | OutOfMemory | ValidationDenied

definition zeroed_file :: "('l::len) struct_file" where
  "zeroed_file =
     \<lparr>f_count = 0, f_flags = 0, f_mode = 0, f_path_dentry = None, f_path_mnt = None,
      f_inode = None, f_op = None, f_cred = None, f_owner_pid = None,
      f_mnt_write_state = 0\<rparr>"

definition over_path :: "('l::len) kstate \<Rightarrow> 'l kstate" where
  "over_path s =
     (if old_max s <s get_nr_files s
      then (log (E_pr_info (unat (get_max_files s))) s)\<lparr>old_max := get_nr_files s\<rparr>
      else s)"

definition get_empty_filp :: "env \<Rightarrow> ('l::len) kstate \<Rightarrow> (error + ptr) \<times> 'l kstate" where
  "get_empty_filp e s =
     (if get_nr_files s \<ge> max_files s \<and> \<not> capable_sys_admin e \<and>
         percpu_counter_sum_positive (nr_files s) \<ge> uint (max_files s)
      then (Inl ResourceLimitExceeded, over_path s)
      else
        (case zalloc_result e of
           None \<Rightarrow> (Inl OutOfMemory, s)
         | Some a \<Rightarrow>
             (let s1 = log (E_kmem_cache_zalloc a) (s\<lparr>files := (files s)(a \<mapsto> zeroed_file)\<rparr>);
                  s2 = percpu_counter_inc s1;
                  s3 = log (E_get_cred (current_cred e))
                         (s2\<lparr>files := (files s2)(a \<mapsto> zeroed_file\<lparr>f_cred := Some (current_cred e)\<rparr>)\<rparr>);
                  s4 = (log (E_security_file_alloc a) s3)\<lparr>cpu := cpu_after_hook e\<rparr>
              in if security_file_alloc_ret e \<noteq> 0
                 then (Inl ValidationDenied, file_free a s4)
                 else
                   (Inr a,
                    log (E_eventpoll_init_file a)
                      (s4\<lparr>files := (files s4)(a \<mapsto>
                             zeroed_file\<lparr>f_cred := Some (current_cred e), f_count := 1\<rparr>)\<rparr>)))))"

section \<open>Giving up write access\<close>

definition upd_file :: "ptr \<Rightarrow> (('l::len) struct_file \<Rightarrow> 'l struct_file) \<Rightarrow> 'l kstate \<Rightarrow> 'l kstate" where
  "upd_file a g s = s\<lparr>files := (files s)(a := map_option g (files s a))\<rparr>"

text \<open>Modelled from the spec: "decrement a write-access counter on the resource"
  (\<open>put_write_access\<close>, an \<open>atomic_dec\<close> of \<open>i_writecount\<close>; include/linux/fs.h is
  not among the sources).\<close>

definition put_write_access :: "ptr \<Rightarrow> ('l::len) kstate \<Rightarrow> 'l kstate" where
  "put_write_access i s =
     log (E_put_write_access i)
       (s\<lparr>inodes := (inodes s)(i := (inodes s i)\<lparr>i_writecount := i_writecount (inodes s i) - 1\<rparr>)\<rparr>)"

text \<open>Modelled from the spec: "decrement a read-count on the resource"
  (\<open>i_readcount_dec\<close>, not among the sources).\<close>

definition i_readcount_dec :: "ptr \<Rightarrow> ('l::len) kstate \<Rightarrow> 'l kstate" where
  "i_readcount_dec i s =
     log (E_i_readcount_dec i)
       (s\<lparr>inodes := (inodes s)(i := (inodes s i)\<lparr>i_readcount := i_readcount (inodes s i) - 1\<rparr>)\<rparr>)"

text \<open>Modelled from the spec: "release a mount-is-writable claim" (\<open>mnt_drop_write\<close>,
  fs/namespace.c, not among the sources): the mount's writer count goes down by one.\<close>

definition mnt_drop_write :: "ptr \<Rightarrow> ('l::len) kstate \<Rightarrow> 'l kstate" where
  "mnt_drop_write m s =
     log (E_mnt_drop_write m) (s\<lparr>mnt_writers := (mnt_writers s)(m := mnt_writers s m - 1)\<rparr>)"

text \<open>Modelled from the spec: "the object's own write-access bookkeeping" and its
  "idempotency guard" (\<open>f_mnt_write_state\<close> with \<open>file_check_writeable\<close> and
  \<open>file_release_write\<close> of include/linux/fs.h, not among the sources): the guard passes
  (returns 0) only in the state "taken", and the release adds the bit "released".\<close>

definition FILE_MNT_WRITE_TAKEN :: "8 word" where "FILE_MNT_WRITE_TAKEN = 1"
definition FILE_MNT_WRITE_RELEASED :: "8 word" where "FILE_MNT_WRITE_RELEASED = 2"
definition EINVAL :: int where "EINVAL = 22"

definition file_check_writeable :: "('l::len) struct_file \<Rightarrow> int" where
  "file_check_writeable f =
     (if f_mnt_write_state f = FILE_MNT_WRITE_TAKEN then 0 else - EINVAL)"

definition file_release_write :: "ptr \<Rightarrow> ('l::len) kstate \<Rightarrow> 'l kstate" where
  "file_release_write a s =
     log (E_file_release_write a)
       (upd_file a (\<lambda>f. f\<lparr>f_mnt_write_state := f_mnt_write_state f OR FILE_MNT_WRITE_RELEASED\<rparr>) s)"

text \<open>\<open>drop_file_write_access\<close>: \<open>put_write_access\<close> on the inode first, in every
  case; then nothing more for a special file, nothing more when
  \<open>file_check_writeable\<close> does not return 0; otherwise \<open>mnt_drop_write\<close> and
  \<open>file_release_write\<close>.\<close>

definition drop_file_write_access :: "ptr \<Rightarrow> ('l::len) kstate \<Rightarrow> 'l kstate option" where
  "drop_file_write_access a s =
     (case files s a of
        None \<Rightarrow> None
      | Some f \<Rightarrow>
          (case f_path_dentry f of
             None \<Rightarrow> None
           | Some dentry \<Rightarrow>
               (case d_inode s dentry of
                  None \<Rightarrow> None
                | Some i \<Rightarrow>
                    (let s1 = put_write_access i s in
                     if special_file (i_mode (inodes s1 i)) then Some s1
                     else if file_check_writeable f \<noteq> 0 then Some s1
                     else
                       (case f_path_mnt f of
                          None \<Rightarrow> None
                        | Some m \<Rightarrow> Some (file_release_write a (mnt_drop_write m s1)))))))"

section \<open>Teardown: the body of \<open>__fput\<close>\<close>

text \<open>The statements of \<open>__fput\<close> after its three local variables are read, one
  constructor per statement, and \<open>fput_steps\<close>, the statements in the order of the
  source.\<close>

datatype step =
    S_fsnotify_close
  | S_eventpoll_release
  | S_locks_remove_file
  | S_fasync
  | S_release
  | S_security_file_free
  | S_ima_file_free
  | S_cdev_put
  | S_fops_put
  | S_put_pid
  | S_i_readcount_dec
  | S_drop_file_write_access
  | S_clear_dentry
  | S_clear_mnt
  | S_clear_inode
  | S_file_free
  | S_dput
  | S_mntput

definition fput_steps :: "step list" where
  "fput_steps =
     [S_fsnotify_close, S_eventpoll_release, S_locks_remove_file, S_fasync, S_release,
      S_security_file_free, S_ima_file_free, S_cdev_put, S_fops_put, S_put_pid,
      S_i_readcount_dec, S_drop_file_write_access, S_clear_dentry, S_clear_mnt,
      S_clear_inode, S_file_free, S_dput, S_mntput]"

text \<open>One statement of \<open>__fput\<close> on the file at \<open>a\<close>, with the locals \<open>dentry\<close>,
  \<open>mnt\<close> and \<open>inode\<close> read at entry. Each statement reads the file as it is when the
  statement runs.\<close>

fun exec_step ::
  "ptr \<Rightarrow> ptr \<Rightarrow> ptr option \<Rightarrow> ptr option \<Rightarrow> ('l::len) struct_file \<Rightarrow> step \<Rightarrow> 'l kstate \<Rightarrow> 'l kstate option"
where
  "exec_step a dentry mnt inode f S_fsnotify_close s = Some (log (E_fsnotify_close a) s)"
| "exec_step a dentry mnt inode f S_eventpoll_release s = Some (log (E_eventpoll_release a) s)"
| "exec_step a dentry mnt inode f S_locks_remove_file s = Some (log (E_locks_remove_file a) s)"
| "exec_step a dentry mnt inode f S_fasync s =
     (if f_flags f AND FASYNC \<noteq> 0
      then (case f_op f of
              None \<Rightarrow> Some s
            | Some ops \<Rightarrow> if fop_fasync ops then Some (log (E_fasync (- 1) a 0) s) else Some s)
      else Some s)"
| "exec_step a dentry mnt inode f S_release s =
     (case f_op f of
        None \<Rightarrow> Some s
      | Some ops \<Rightarrow> if fop_release ops then Some (log (E_release inode a) s) else Some s)"
| "exec_step a dentry mnt inode f S_security_file_free s = Some (log (E_security_file_free a) s)"
| "exec_step a dentry mnt inode f S_ima_file_free s = Some (log (E_ima_file_free a) s)"
| "exec_step a dentry mnt inode f S_cdev_put s =
     (case inode of
        None \<Rightarrow> None
      | Some i \<Rightarrow>
          (if S_ISCHR (i_mode (inodes s i)) \<and> i_cdev (inodes s i) \<noteq> None \<and>
              f_mode f AND FMODE_PATH = 0
           then (case i_cdev (inodes s i) of
                   None \<Rightarrow> Some s
                 | Some c \<Rightarrow> Some (log (E_cdev_put c) s))
           else Some s))"
| "exec_step a dentry mnt inode f S_fops_put s = Some (log (E_fops_put (f_op f)) s)"
| "exec_step a dentry mnt inode f S_put_pid s = Some (log (E_put_pid (f_owner_pid f)) s)"
| "exec_step a dentry mnt inode f S_i_readcount_dec s =
     (if f_mode f AND (FMODE_READ OR FMODE_WRITE) = FMODE_READ
      then (case inode of None \<Rightarrow> None | Some i \<Rightarrow> Some (i_readcount_dec i s))
      else Some s)"
| "exec_step a dentry mnt inode f S_drop_file_write_access s =
     (if f_mode f AND FMODE_WRITE \<noteq> 0 then drop_file_write_access a s else Some s)"
| "exec_step a dentry mnt inode f S_clear_dentry s =
     Some (log (E_clear_dentry a) (upd_file a (\<lambda>f. f\<lparr>f_path_dentry := None\<rparr>) s))"
| "exec_step a dentry mnt inode f S_clear_mnt s =
     Some (log (E_clear_mnt a) (upd_file a (\<lambda>f. f\<lparr>f_path_mnt := None\<rparr>) s))"
| "exec_step a dentry mnt inode f S_clear_inode s =
     Some (log (E_clear_inode a) (upd_file a (\<lambda>f. f\<lparr>f_inode := None\<rparr>) s))"
| "exec_step a dentry mnt inode f S_file_free s = Some (file_free a s)"
| "exec_step a dentry mnt inode f S_dput s = Some (log (E_dput dentry) s)"
| "exec_step a dentry mnt inode f S_mntput s = Some (log (E_mntput mnt) s)"

text \<open>A statement runs on the file as the slab holds it at that moment.\<close>

definition do_step :: "ptr \<Rightarrow> ptr \<Rightarrow> ptr option \<Rightarrow> ptr option \<Rightarrow> step \<Rightarrow> ('l::len) kstate \<Rightarrow> 'l kstate option" where
  "do_step a dentry mnt inode st s =
     (case files s a of None \<Rightarrow> None | Some f \<Rightarrow> exec_step a dentry mnt inode f st s)"

fun run_steps :: "(step \<Rightarrow> 's \<Rightarrow> 's option) \<Rightarrow> step list \<Rightarrow> 's \<Rightarrow> 's option" where
  "run_steps ex [] s = Some s"
| "run_steps ex (st # sts) s =
     (case ex st s of None \<Rightarrow> None | Some s' \<Rightarrow> run_steps ex sts s')"

text \<open>\<open>__fput\<close>: the locals \<open>dentry\<close>, \<open>mnt\<close> and \<open>inode\<close> are read (the
  second dereferences \<open>dentry\<close>), then the statements run in order.\<close>

definition final_fput :: "ptr \<Rightarrow> ('l::len) kstate \<Rightarrow> 'l kstate option" where
  "final_fput a s =
     (case files s a of
        None \<Rightarrow> None
      | Some f \<Rightarrow>
          (case f_path_dentry f of
             None \<Rightarrow> None
           | Some dentry \<Rightarrow>
               run_steps (do_step a dentry (f_path_mnt f) (d_inode s dentry)) fput_steps s))"

section \<open>Retain and the two releases\<close>

text \<open>\<open>atomic_long_dec_and_test(&file->f_count)\<close>: the count goes down by one, with
  wrap-around, and the result says whether it is now 0.\<close>

definition atomic_long_dec_and_test :: "ptr \<Rightarrow> ('l::len) kstate \<Rightarrow> (bool \<times> 'l kstate) option" where
  "atomic_long_dec_and_test a s =
     (case files s a of
        None \<Rightarrow> None
      | Some f \<Rightarrow>
          Some (f_count f - 1 = 0, s\<lparr>files := (files s)(a \<mapsto> f\<lparr>f_count := f_count f - 1\<rparr>)\<rparr>))"

definition fput :: "ptr \<Rightarrow> ('l::len) kstate \<Rightarrow> 'l kstate option" where
  "fput a s =
     (case atomic_long_dec_and_test a s of
        None \<Rightarrow> None
      | Some (z, s1) \<Rightarrow> if z then final_fput a s1 else Some s1)"

definition put_filp :: "ptr \<Rightarrow> ('l::len) kstate \<Rightarrow> 'l kstate option" where
  "put_filp a s =
     (case atomic_long_dec_and_test a s of
        None \<Rightarrow> None
      | Some (z, s1) \<Rightarrow>
          if z then Some (file_free a (log (E_security_file_free a) s1)) else Some s1)"






text \<open>How often teardown has run on the object at \<open>a\<close>: the calls of
  \<open>fsnotify_close\<close>, the first statement of \<open>__fput\<close>, in the record.\<close>

definition teardown_runs :: "ptr \<Rightarrow> event list \<Rightarrow> nat" where
  "teardown_runs a tr = length (filter (\<lambda>e. e = E_fsnotify_close a) tr)"

section \<open>What a teardown records\<close>

text \<open>The calls recorded by the statements of \<open>__fput\<close>, written as lists, for the
  lemmas that follow. \<open>log_list\<close> records several calls at once.\<close>

definition log_list :: "event list \<Rightarrow> ('l::len) kstate \<Rightarrow> 'l kstate" where
  "log_list es s = s\<lparr>trace := trace s @ es\<rparr>"

definition fasync_events :: "ptr \<Rightarrow> ('l::len) struct_file \<Rightarrow> event list" where
  "fasync_events a f =
     (if f_flags f AND FASYNC \<noteq> 0 \<and> (case f_op f of None \<Rightarrow> False | Some ops \<Rightarrow> fop_fasync ops)
      then [E_fasync (- 1) a 0] else [])"

definition release_events :: "ptr \<Rightarrow> ptr option \<Rightarrow> ('l::len) struct_file \<Rightarrow> event list" where
  "release_events a inode f =
     (if (case f_op f of None \<Rightarrow> False | Some ops \<Rightarrow> fop_release ops)
      then [E_release inode a] else [])"

definition cdev_events :: "('l::len) struct_file \<Rightarrow> inode \<Rightarrow> event list" where
  "cdev_events f ino =
     (case i_cdev ino of
        None \<Rightarrow> []
      | Some c \<Rightarrow> if S_ISCHR (i_mode ino) \<and> f_mode f AND FMODE_PATH = 0 then [E_cdev_put c] else [])"

definition phase1_events :: "ptr \<Rightarrow> ptr \<Rightarrow> ('l::len) struct_file \<Rightarrow> inode \<Rightarrow> event list" where
  "phase1_events a i f ino =
     [E_fsnotify_close a, E_eventpoll_release a, E_locks_remove_file a] @
     fasync_events a f @ release_events a (Some i) f @
     [E_security_file_free a, E_ima_file_free a] @
     cdev_events f ino @ [E_fops_put (f_op f), E_put_pid (f_owner_pid f)]"

definition readonly_mode :: "('l::len) struct_file \<Rightarrow> bool" where
  "readonly_mode f = (f_mode f AND (FMODE_READ OR FMODE_WRITE) = FMODE_READ)"

definition write_mode :: "('l::len) struct_file \<Rightarrow> bool" where
  "write_mode f = (f_mode f AND FMODE_WRITE \<noteq> 0)"

definition closing :: "ptr \<Rightarrow> ptr \<Rightarrow> ptr option \<Rightarrow> ('l::len) kstate \<Rightarrow> 'l kstate" where
  "closing a d m s =
     log (E_mntput m) (log (E_dput d) (file_free a
       (log (E_clear_inode a) (upd_file a (\<lambda>f. f\<lparr>f_inode := None\<rparr>)
         (log (E_clear_mnt a) (upd_file a (\<lambda>f. f\<lparr>f_path_mnt := None\<rparr>)
           (log (E_clear_dentry a) (upd_file a (\<lambda>f. f\<lparr>f_path_dentry := None\<rparr>) s))))))))"

text \<open>Whether \<open>drop_file_write_access\<close> goes on to the mount: a regular file whose
  write state is "taken".\<close>

definition drops_mnt :: "('l::len) struct_file \<Rightarrow> inode \<Rightarrow> bool" where
  "drops_mnt f ino = (\<not> special_file (i_mode ino) \<and> file_check_writeable f = 0)"

fun mnt_events :: "ptr \<Rightarrow> ptr option \<Rightarrow> event list" where
  "mnt_events a None = []"
| "mnt_events a (Some m) = [E_mnt_drop_write m, E_file_release_write a]"

definition write_events :: "ptr \<Rightarrow> ptr \<Rightarrow> ('l::len) struct_file \<Rightarrow> inode \<Rightarrow> event list" where
  "write_events a i f ino =
     E_put_write_access i # (if drops_mnt f ino then mnt_events a (f_path_mnt f) else [])"

definition readcount_events :: "ptr \<Rightarrow> ('l::len) struct_file \<Rightarrow> event list" where
  "readcount_events i f = (if readonly_mode f then [E_i_readcount_dec i] else [])"

definition closing_events :: "ptr \<Rightarrow> ptr \<Rightarrow> ptr option \<Rightarrow> event list" where
  "closing_events a d m =
     [E_clear_dentry a, E_clear_mnt a, E_clear_inode a,
      E_percpu_counter_dec, E_file_check_state a, E_call_rcu a, E_dput d, E_mntput m]"

definition after_readcount :: "ptr \<Rightarrow> ptr \<Rightarrow> ('l::len) struct_file \<Rightarrow> 'l kstate \<Rightarrow> 'l kstate" where
  "after_readcount a i f s =
     (if readonly_mode f
      then i_readcount_dec i (log_list (phase1_events a i f (inodes s i)) s)
      else log_list (phase1_events a i f (inodes s i)) s)"

text \<open>The test of \<open>get_empty_filp\<close> that leads to the label \<open>over\<close>.\<close>

definition over_limit :: "env \<Rightarrow> ('l::len) kstate \<Rightarrow> bool" where
  "over_limit e s =
     (get_nr_files s \<ge> max_files s \<and> \<not> capable_sys_admin e \<and>
      percpu_counter_sum_positive (nr_files s) \<ge> uint (max_files s))"

section \<open>A concrete kernel state\<close>

text \<open>One open file on a 32-bit kernel: the file at address 10, opened read-write with
  \<open>FASYNC\<close> on the regular file of inode 30 (dentry 20, mount 40), holding one reference,
  its write state "taken"; two CPUs, the file counted in the delta of CPU 0.\<close>

definition ex_inode :: inode where
  "ex_inode = \<lparr>i_mode = 0x81A4, i_cdev = None, i_writecount = 1, i_readcount = 0\<rparr>"

definition ex_file :: "32 struct_file" where
  "ex_file =
     \<lparr>f_count = 1, f_flags = 0x2002, f_mode = 0x3, f_path_dentry = Some 20,
      f_path_mnt = Some 40, f_inode = Some 30,
      f_op = Some \<lparr>fop_fasync = True, fop_release = True\<rparr>,
      f_cred = Some 50, f_owner_pid = None, f_mnt_write_state = 1\<rparr>"

definition ex_state :: "32 kstate" where
  "ex_state =
     \<lparr>files = (\<lambda>_. None)(10 := Some ex_file),
      d_inode = (\<lambda>_. None)(20 := Some 30),
      inodes = (\<lambda>_. ex_inode),
      mnt_writers = (\<lambda>_. 1),
      nr_files = \<lparr>pc_count = 0, pc_counters = (\<lambda>_. 0)(0 := 1), pc_cpus = 2\<rparr>,
      percpu_counter_batch = 32,
      max_files = 8192,
      old_max = 0,
      cpu = 0,
      rcu_pending = [],
      trace = []\<rparr>"

text \<open>The same state with a ceiling of three and three files counted: in the delta of
  CPU 0 (\<open>ex_crowded\<close>), or in the shared value (\<open>ex_full\<close>); the same with a
  shared value of \<open>2^32 + 1\<close>, which a \<open>long\<close> of 32 bits reads as 1
  (\<open>ex_wrapped\<close>); and an unprivileged caller whose allocation and security hook
  succeed.\<close>

definition ex_crowded :: "32 kstate" where
  "ex_crowded =
     ex_state\<lparr>nr_files := \<lparr>pc_count = 0, pc_counters = (\<lambda>_. 0)(0 := 3), pc_cpus = 2\<rparr>,
              max_files := 3\<rparr>"

definition ex_full :: "32 kstate" where
  "ex_full =
     ex_state\<lparr>nr_files := \<lparr>pc_count = 3, pc_counters = (\<lambda>_. 0), pc_cpus = 2\<rparr>,
              max_files := 3\<rparr>"

definition ex_wrapped :: "32 kstate" where
  "ex_wrapped =
     ex_state\<lparr>nr_files := \<lparr>pc_count = 4294967297, pc_counters = (\<lambda>_. 0), pc_cpus = 2\<rparr>,
              max_files := 3\<rparr>"

definition ex_env :: env where
  "ex_env =
     \<lparr>capable_sys_admin = False, zalloc_result = Some 70, current_cred = 50,
      security_file_alloc_ret = 0, cpu_after_hook = 1\<rparr>"

section \<open>The effect of teardown\<close>

lemma log_list_simps [simp]:
  "trace (log_list es s) = trace s @ es"
  "files (log_list es s) = files s"
  "d_inode (log_list es s) = d_inode s"
  "inodes (log_list es s) = inodes s"
  "mnt_writers (log_list es s) = mnt_writers s"
  "nr_files (log_list es s) = nr_files s"
  "percpu_counter_batch (log_list es s) = percpu_counter_batch s"
  "max_files (log_list es s) = max_files s"
  "old_max (log_list es s) = old_max s"
  "cpu (log_list es s) = cpu s"
  "rcu_pending (log_list es s) = rcu_pending s"
  by (simp_all add: log_list_def)

lemma log_list_fuse: "log_list es (log_list es' s) = log_list (es' @ es) s"
  by (simp add: log_list_def)

lemma log_list_Nil: "log_list [] s = s"
  by (simp add: log_list_def)

lemma log_as_list: "log e s = log_list [e] s"
  by (simp add: log_def log_list_def)

lemma step_fasync:
  "exec_step a d m inode f S_fasync s = Some (log_list (fasync_events a f) s)"
  by (simp add: fasync_events_def log_as_list log_list_Nil split: option.split)

lemma step_release:
  "exec_step a d m inode f S_release s = Some (log_list (release_events a inode f) s)"
  by (simp add: release_events_def log_as_list log_list_Nil split: option.split)

lemma step_cdev:
  "exec_step a d m (Some i) f S_cdev_put s = Some (log_list (cdev_events f (inodes s i)) s)"
  by (simp add: cdev_events_def log_as_list log_list_Nil split: option.split)

lemma phase1:
  assumes "files s a = Some f"
  shows "run_steps (do_step a d m (Some i))
           [S_fsnotify_close, S_eventpoll_release, S_locks_remove_file, S_fasync, S_release,
            S_security_file_free, S_ima_file_free, S_cdev_put, S_fops_put, S_put_pid] s
         = Some (log_list (phase1_events a i f (inodes s i)) s)"
  using assms
  by (simp add: do_step_def step_fasync step_release step_cdev log_as_list log_list_fuse
      phase1_events_def del: exec_step.simps(4,5,8))

lemma run_steps_append:
  "run_steps ex (xs @ ys) s = (case run_steps ex xs s of None \<Rightarrow> None | Some s' \<Rightarrow> run_steps ex ys s')"
  by (induction xs arbitrary: s) (auto split: option.splits)

lemma upd_file_simps [simp]:
  "trace (upd_file a g s) = trace s"
  "files (upd_file a g s) = (files s)(a := map_option g (files s a))"
  "d_inode (upd_file a g s) = d_inode s"
  "inodes (upd_file a g s) = inodes s"
  "mnt_writers (upd_file a g s) = mnt_writers s"
  "nr_files (upd_file a g s) = nr_files s"
  "percpu_counter_batch (upd_file a g s) = percpu_counter_batch s"
  "max_files (upd_file a g s) = max_files s"
  "old_max (upd_file a g s) = old_max s"
  "cpu (upd_file a g s) = cpu s"
  "rcu_pending (upd_file a g s) = rcu_pending s"
  by (simp_all add: upd_file_def)

lemma log_simps [simp]:
  "trace (log e s) = trace s @ [e]"
  "files (log e s) = files s"
  "d_inode (log e s) = d_inode s"
  "inodes (log e s) = inodes s"
  "mnt_writers (log e s) = mnt_writers s"
  "nr_files (log e s) = nr_files s"
  "percpu_counter_batch (log e s) = percpu_counter_batch s"
  "max_files (log e s) = max_files s"
  "old_max (log e s) = old_max s"
  "cpu (log e s) = cpu s"
  "rcu_pending (log e s) = rcu_pending s"
  by (simp_all add: log_def)

lemma file_free_simps [simp]:
  "trace (file_free a s) = trace s @ [E_percpu_counter_dec, E_file_check_state a, E_call_rcu a]"
  "files (file_free a s) = files s"
  "d_inode (file_free a s) = d_inode s"
  "inodes (file_free a s) = inodes s"
  "mnt_writers (file_free a s) = mnt_writers s"
  "nr_files (file_free a s) = percpu_counter_add (percpu_counter_batch s) (cpu s) (- 1) (nr_files s)"
  "percpu_counter_batch (file_free a s) = percpu_counter_batch s"
  "max_files (file_free a s) = max_files s"
  "old_max (file_free a s) = old_max s"
  "cpu (file_free a s) = cpu s"
  "rcu_pending (file_free a s) = rcu_pending s @ [a]"
  by (simp_all add: file_free_def call_rcu_def percpu_counter_dec_def)

lemma phase4:
  assumes "files s a = Some f"
  shows "run_steps (do_step a d m inode)
           [S_clear_dentry, S_clear_mnt, S_clear_inode, S_file_free, S_dput, S_mntput] s
         = Some (closing a d m s)"
  using assms by (simp add: do_step_def closing_def)

lemma closing_simps [simp]:
  "trace (closing a d m s) = trace s @
     [E_clear_dentry a, E_clear_mnt a, E_clear_inode a,
      E_percpu_counter_dec, E_file_check_state a, E_call_rcu a, E_dput d, E_mntput m]"
  "files (closing a d m s) = (files s)(a := map_option
      (\<lambda>f. f\<lparr>f_path_dentry := None, f_path_mnt := None, f_inode := None\<rparr>) (files s a))"
  "d_inode (closing a d m s) = d_inode s"
  "inodes (closing a d m s) = inodes s"
  "mnt_writers (closing a d m s) = mnt_writers s"
  "nr_files (closing a d m s) = percpu_counter_add (percpu_counter_batch s) (cpu s) (- 1) (nr_files s)"
  "percpu_counter_batch (closing a d m s) = percpu_counter_batch s"
  "max_files (closing a d m s) = max_files s"
  "old_max (closing a d m s) = old_max s"
  "cpu (closing a d m s) = cpu s"
  "rcu_pending (closing a d m s) = rcu_pending s @ [a]"
  by (auto simp add: closing_def fun_eq_iff map_option_case split: option.splits)

lemma i_readcount_dec_simps [simp]:
  "trace (i_readcount_dec i s) = trace s @ [E_i_readcount_dec i]"
  "files (i_readcount_dec i s) = files s"
  "d_inode (i_readcount_dec i s) = d_inode s"
  "inodes (i_readcount_dec i s) =
     (inodes s)(i := (inodes s i)\<lparr>i_readcount := i_readcount (inodes s i) - 1\<rparr>)"
  "mnt_writers (i_readcount_dec i s) = mnt_writers s"
  "nr_files (i_readcount_dec i s) = nr_files s"
  "percpu_counter_batch (i_readcount_dec i s) = percpu_counter_batch s"
  "cpu (i_readcount_dec i s) = cpu s"
  "rcu_pending (i_readcount_dec i s) = rcu_pending s"
  by (simp_all add: i_readcount_dec_def)

lemma put_write_access_simps [simp]:
  "trace (put_write_access i s) = trace s @ [E_put_write_access i]"
  "files (put_write_access i s) = files s"
  "d_inode (put_write_access i s) = d_inode s"
  "inodes (put_write_access i s) =
     (inodes s)(i := (inodes s i)\<lparr>i_writecount := i_writecount (inodes s i) - 1\<rparr>)"
  "mnt_writers (put_write_access i s) = mnt_writers s"
  "nr_files (put_write_access i s) = nr_files s"
  "percpu_counter_batch (put_write_access i s) = percpu_counter_batch s"
  "cpu (put_write_access i s) = cpu s"
  "rcu_pending (put_write_access i s) = rcu_pending s"
  by (simp_all add: put_write_access_def)

lemma mnt_drop_write_simps [simp]:
  "trace (mnt_drop_write m s) = trace s @ [E_mnt_drop_write m]"
  "files (mnt_drop_write m s) = files s"
  "d_inode (mnt_drop_write m s) = d_inode s"
  "inodes (mnt_drop_write m s) = inodes s"
  "mnt_writers (mnt_drop_write m s) = (mnt_writers s)(m := mnt_writers s m - 1)"
  "nr_files (mnt_drop_write m s) = nr_files s"
  "percpu_counter_batch (mnt_drop_write m s) = percpu_counter_batch s"
  "cpu (mnt_drop_write m s) = cpu s"
  "rcu_pending (mnt_drop_write m s) = rcu_pending s"
  by (simp_all add: mnt_drop_write_def)

lemma file_release_write_simps [simp]:
  "trace (file_release_write a s) = trace s @ [E_file_release_write a]"
  "files (file_release_write a s) = (files s)(a := map_option
     (\<lambda>f. f\<lparr>f_mnt_write_state := f_mnt_write_state f OR FILE_MNT_WRITE_RELEASED\<rparr>) (files s a))"
  "d_inode (file_release_write a s) = d_inode s"
  "inodes (file_release_write a s) = inodes s"
  "mnt_writers (file_release_write a s) = mnt_writers s"
  "nr_files (file_release_write a s) = nr_files s"
  "percpu_counter_batch (file_release_write a s) = percpu_counter_batch s"
  "cpu (file_release_write a s) = cpu s"
  "rcu_pending (file_release_write a s) = rcu_pending s"
  by (simp_all add: file_release_write_def)

lemma drop_file_write_access_closed:
  assumes "files s a = Some f" "f_path_dentry f = Some d" "d_inode s d = Some i"
  shows "drop_file_write_access a s =
     (if drops_mnt f (inodes s i)
      then (case f_path_mnt f of
              None \<Rightarrow> None
            | Some m \<Rightarrow> Some (file_release_write a (mnt_drop_write m (put_write_access i s))))
      else Some (put_write_access i s))"
  using assms by (simp add: drop_file_write_access_def drops_mnt_def Let_def)

lemma drop_file_write_access_facts:
  assumes "files s a = Some f" "f_path_dentry f = Some d" "d_inode s d = Some i"
    and "drop_file_write_access a s = Some s'"
  shows "trace s' = trace s @ write_events a i f (inodes s i)"
    and "files s' a = Some (if drops_mnt f (inodes s i)
           then f\<lparr>f_mnt_write_state := f_mnt_write_state f OR FILE_MNT_WRITE_RELEASED\<rparr> else f)"
    and "nr_files s' = nr_files s" and "rcu_pending s' = rcu_pending s"
    and "percpu_counter_batch s' = percpu_counter_batch s" and "cpu s' = cpu s"
    and "d_inode s' = d_inode s"
  using assms(4) unfolding drop_file_write_access_closed [OF assms(1-3)]
  by (auto simp: write_events_def assms(1) split: if_splits option.splits)

lemma fput_steps_split:
  "fput_steps =
     [S_fsnotify_close, S_eventpoll_release, S_locks_remove_file, S_fasync, S_release,
      S_security_file_free, S_ima_file_free, S_cdev_put, S_fops_put, S_put_pid] @
     [S_i_readcount_dec] @ [S_drop_file_write_access] @
     [S_clear_dentry, S_clear_mnt, S_clear_inode, S_file_free, S_dput, S_mntput]"
  by (simp add: fput_steps_def)

lemma after_readcount_simps [simp]:
  "trace (after_readcount a i f s) =
     trace s @ phase1_events a i f (inodes s i) @ readcount_events i f"
  "files (after_readcount a i f s) = files s"
  "d_inode (after_readcount a i f s) = d_inode s"
  "i_mode (inodes (after_readcount a i f s) j) = i_mode (inodes s j)"
  "nr_files (after_readcount a i f s) = nr_files s"
  "percpu_counter_batch (after_readcount a i f s) = percpu_counter_batch s"
  "cpu (after_readcount a i f s) = cpu s"
  "rcu_pending (after_readcount a i f s) = rcu_pending s"
  by (simp_all add: after_readcount_def readcount_events_def)

lemma final_fput_closed:
  assumes f: "files s a = Some f" and d: "f_path_dentry f = Some d" and i: "d_inode s d = Some i"
  shows "final_fput a s =
    (case (if write_mode f then drop_file_write_access a (after_readcount a i f s)
           else Some (after_readcount a i f s)) of
       None \<Rightarrow> None
     | Some s12 \<Rightarrow> Some (closing a d (f_path_mnt f) s12))"
proof -
  let ?ex = "do_step a d (f_path_mnt f) (Some i)"
  let ?s10 = "log_list (phase1_events a i f (inodes s i)) s"
  let ?s11 = "after_readcount a i f s"
  have f11: "files ?s11 a = Some f" by (simp add: f)
  have i11: "d_inode ?s11 d = Some i" by (simp add: i)
  have st11: "?ex S_i_readcount_dec ?s10 = Some ?s11"
    by (simp add: do_step_def f after_readcount_def readonly_mode_def)
  have st12: "?ex S_drop_file_write_access ?s11 =
      (if write_mode f then drop_file_write_access a ?s11 else Some ?s11)"
    by (simp add: do_step_def f write_mode_def)
  have p4: "run_steps ?ex [S_clear_dentry, S_clear_mnt, S_clear_inode, S_file_free, S_dput, S_mntput] s12
      = Some (closing a d (f_path_mnt f) s12)"
    if "(if write_mode f then drop_file_write_access a ?s11 else Some ?s11) = Some s12" for s12
  proof -
    have "\<exists>g. files s12 a = Some g"
    proof (cases "write_mode f")
      case True
      with that have "drop_file_write_access a ?s11 = Some s12" by simp
      from drop_file_write_access_facts(2) [OF f11 d i11 this] show ?thesis by blast
    next
      case False
      with that f11 show ?thesis by auto
    qed
    then obtain g where "files s12 a = Some g" ..
    then show ?thesis by (rule phase4)
  qed
  have "final_fput a s = run_steps ?ex fput_steps s"
    by (simp add: final_fput_def f d i)
  also have "\<dots> = (case ?ex S_drop_file_write_access ?s11 of None \<Rightarrow> None
      | Some s12 \<Rightarrow> run_steps ?ex [S_clear_dentry, S_clear_mnt, S_clear_inode, S_file_free, S_dput, S_mntput] s12)"
    unfolding fput_steps_split run_steps_append phase1 [OF f]
    by (simp add: st11 del: exec_step.simps split: option.split)
  also have "\<dots> = (case (if write_mode f then drop_file_write_access a ?s11 else Some ?s11) of
       None \<Rightarrow> None
     | Some s12 \<Rightarrow> Some (closing a d (f_path_mnt f) s12))"
    unfolding st12
  proof (cases "if write_mode f then drop_file_write_access a ?s11 else Some ?s11")
    case None
    then show "(case (if write_mode f then drop_file_write_access a ?s11 else Some ?s11) of
        None \<Rightarrow> None
      | Some s12 \<Rightarrow> run_steps ?ex [S_clear_dentry, S_clear_mnt, S_clear_inode, S_file_free, S_dput, S_mntput] s12) =
      (case (if write_mode f then drop_file_write_access a ?s11 else Some ?s11) of
        None \<Rightarrow> None
      | Some s12 \<Rightarrow> Some (closing a d (f_path_mnt f) s12))"
      by (simp only: option.case)
  next
    case (Some s12)
    from p4 [OF Some] Some
    show "(case (if write_mode f then drop_file_write_access a ?s11 else Some ?s11) of
        None \<Rightarrow> None
      | Some s12 \<Rightarrow> run_steps ?ex [S_clear_dentry, S_clear_mnt, S_clear_inode, S_file_free, S_dput, S_mntput] s12) =
      (case (if write_mode f then drop_file_write_access a ?s11 else Some ?s11) of
        None \<Rightarrow> None
      | Some s12 \<Rightarrow> Some (closing a d (f_path_mnt f) s12))"
      by (simp only: option.case)
  qed
  finally show ?thesis .
qed

lemma final_fput_result:
  assumes f: "files s a = Some f" and d: "f_path_dentry f = Some d" and i: "d_inode s d = Some i"
    and run: "final_fput a s = Some s'"
  shows "trace s' = trace s @ phase1_events a i f (inodes s i) @ readcount_events i f @
           (if write_mode f then write_events a i f (inodes s i) else []) @
           closing_events a d (f_path_mnt f)"
    and "files s' a = Some ((if write_mode f \<and> drops_mnt f (inodes s i)
           then f\<lparr>f_mnt_write_state := f_mnt_write_state f OR FILE_MNT_WRITE_RELEASED\<rparr> else f)
           \<lparr>f_path_dentry := None, f_path_mnt := None, f_inode := None\<rparr>)"
    and "nr_files s' = percpu_counter_add (percpu_counter_batch s) (cpu s) (- 1) (nr_files s)"
    and "rcu_pending s' = rcu_pending s @ [a]"
proof -
  let ?s11 = "after_readcount a i f s"
  have f11: "files ?s11 a = Some f" by (simp add: f)
  have i11: "d_inode ?s11 d = Some i" by (simp add: i)
  from run obtain s12
    where s12: "(if write_mode f then drop_file_write_access a ?s11 else Some ?s11) = Some s12"
      and s'_eq: "s' = closing a d (f_path_mnt f) s12"
    unfolding final_fput_closed [OF f d i] by (auto split: option.splits)
  have dm: "drops_mnt f (inodes ?s11 i) = drops_mnt f (inodes s i)"
    by (simp add: drops_mnt_def)
  have we: "write_events a i f (inodes ?s11 i) = write_events a i f (inodes s i)"
    by (simp add: write_events_def dm)
  have s12_facts: "trace s12 = trace ?s11 @ (if write_mode f then write_events a i f (inodes s i) else []) \<and>
        files s12 a = Some (if write_mode f \<and> drops_mnt f (inodes s i)
           then f\<lparr>f_mnt_write_state := f_mnt_write_state f OR FILE_MNT_WRITE_RELEASED\<rparr> else f) \<and>
        nr_files s12 = nr_files s \<and> rcu_pending s12 = rcu_pending s \<and>
        percpu_counter_batch s12 = percpu_counter_batch s \<and> cpu s12 = cpu s"
  proof (cases "write_mode f")
    case True
    with s12 have "drop_file_write_access a ?s11 = Some s12" by simp
    from drop_file_write_access_facts [OF f11 d i11 this] True
    show ?thesis by (simp add: we dm)
  next
    case False
    with s12 have "s12 = ?s11" by simp
    with False f show ?thesis by simp
  qed
  show "trace s' = trace s @ phase1_events a i f (inodes s i) @ readcount_events i f @
           (if write_mode f then write_events a i f (inodes s i) else []) @
           closing_events a d (f_path_mnt f)"
    using s12_facts by (simp add: s'_eq closing_events_def)
  show "files s' a = Some ((if write_mode f \<and> drops_mnt f (inodes s i)
           then f\<lparr>f_mnt_write_state := f_mnt_write_state f OR FILE_MNT_WRITE_RELEASED\<rparr> else f)
           \<lparr>f_path_dentry := None, f_path_mnt := None, f_inode := None\<rparr>)"
    using s12_facts by (simp add: s'_eq)
  show "nr_files s' = percpu_counter_add (percpu_counter_batch s) (cpu s) (- 1) (nr_files s)"
    using s12_facts by (simp add: s'_eq)
  show "rcu_pending s' = rcu_pending s @ [a]"
    using s12_facts by (simp add: s'_eq)
qed

lemma final_fput_total:
  assumes f: "files s a = Some f" and d: "f_path_dentry f = Some d" and i: "d_inode s d = Some i"
    and m: "f_path_mnt f = Some m"
  shows "\<exists>s'. final_fput a s = Some s'"
proof -
  have "files (after_readcount a i f s) a = Some f" "d_inode (after_readcount a i f s) d = Some i"
    by (simp_all add: f i)
  from drop_file_write_access_closed [OF this(1) d this(2)] m
  have "\<exists>s12. drop_file_write_access a (after_readcount a i f s) = Some s12"
    by simp
  then show ?thesis
    unfolding final_fput_closed [OF f d i] by (auto split: option.splits)
qed

lemma ex_files [simp]: "files ex_state 10 = Some ex_file"
  by (simp add: ex_state_def)

lemmas event_defs = phase1_events_def fasync_events_def release_events_def cdev_events_def
  readcount_events_def write_events_def closing_events_def

lemma mnt_events_set:
  "set (mnt_events a m) \<subseteq> {E_file_release_write a} \<union> range E_mnt_drop_write"
  by (cases m) auto

lemma sum_list_map_upd:
  "sum_list (map (g(c := v)) [0..<n]) =
     sum_list (map g [0..<n]) + (if c < n then v - g c else (0::int))"
  by (induction n) auto

lemma percpu_counter_sum_add:
  "c < pc_cpus fbc \<Longrightarrow>
     percpu_counter_sum (percpu_counter_add b c amount fbc) = percpu_counter_sum fbc + amount"
  by (simp add: percpu_counter_sum_def percpu_counter_add_def Let_def sum_list_map_upd)

lemma fput_last:
  assumes "files s a = Some f" "f_count f - 1 = 0"
  shows "fput a s = final_fput a (s\<lparr>files := (files s)(a \<mapsto> f\<lparr>f_count := 0\<rparr>)\<rparr>)"
  using assms by (simp add: fput_def atomic_long_dec_and_test_def)

lemma fput_not_last:
  assumes "files s a = Some f" "f_count f - 1 \<noteq> 0"
  shows "fput a s = Some (s\<lparr>files := (files s)(a \<mapsto> f\<lparr>f_count := f_count f - 1\<rparr>)\<rparr>)"
  using assms by (simp add: fput_def atomic_long_dec_and_test_def)

lemma ex_release:
  "\<exists>s'. fput 10 ex_state = Some s' \<and>
     trace s' =
       [E_fsnotify_close 10, E_eventpoll_release 10, E_locks_remove_file 10,
        E_fasync (- 1) 10 0, E_release (Some 30) 10, E_security_file_free 10,
        E_ima_file_free 10, E_fops_put (Some \<lparr>fop_fasync = True, fop_release = True\<rparr>),
        E_put_pid None, E_put_write_access 30, E_mnt_drop_write 40, E_file_release_write 10,
        E_clear_dentry 10, E_clear_mnt 10, E_clear_inode 10, E_percpu_counter_dec,
        E_file_check_state 10, E_call_rcu 10, E_dput 20, E_mntput (Some 40)] \<and>
     files s' 10 = Some (ex_file\<lparr>f_count := 0, f_mnt_write_state := 3, f_path_dentry := None,
                                 f_path_mnt := None, f_inode := None\<rparr>) \<and>
     percpu_counter_sum (nr_files s') = 0 \<and>
     rcu_pending s' = [10]"
proof -
  let ?f0 = "ex_file\<lparr>f_count := 0\<rparr>"
  let ?s0 = "ex_state\<lparr>files := (files ex_state)(10 \<mapsto> ?f0)\<rparr>"
  have f: "files ?s0 10 = Some ?f0" by simp
  have d: "f_path_dentry ?f0 = Some 20" by (simp add: ex_file_def)
  have i: "d_inode ?s0 20 = Some 30" by (simp add: ex_state_def)
  have m: "f_path_mnt ?f0 = Some 40" by (simp add: ex_file_def)
  have eq: "fput 10 ex_state = final_fput 10 ?s0"
    by (rule fput_last [OF ex_files]) (simp add: ex_file_def)
  from final_fput_total [OF f d i m] obtain s' where s': "final_fput 10 ?s0 = Some s'" ..
  have ino: "inodes ?s0 30 = ex_inode" by (simp add: ex_state_def)
  have sp: "\<not> special_file (i_mode ex_inode)"
    by (simp add: special_file_def ex_inode_def S_IFMT_def S_IFCHR_def S_IFBLK_def S_IFIFO_def S_IFSOCK_def)
  have chr: "\<not> S_ISCHR (i_mode ex_inode)"
    by (simp add: S_ISCHR_def ex_inode_def S_IFMT_def S_IFCHR_def)
  have wm: "write_mode ?f0" "\<not> readonly_mode ?f0"
    by (simp_all add: write_mode_def readonly_mode_def ex_file_def FMODE_READ_def FMODE_WRITE_def)
  have dm: "drops_mnt ?f0 ex_inode"
    by (simp add: drops_mnt_def sp file_check_writeable_def ex_file_def FILE_MNT_WRITE_TAKEN_def)
  have fa: "f_flags ex_file AND FASYNC \<noteq> 0" by (simp add: ex_file_def FASYNC_def)
  have flds: "f_op ex_file = Some \<lparr>fop_fasync = True, fop_release = True\<rparr>"
    "f_owner_pid ex_file = None" "i_cdev ex_inode = None" "trace ex_state = []"
    "f_path_mnt ex_file = Some 40"
    by (simp_all add: ex_file_def ex_inode_def ex_state_def)
  note r = final_fput_result [OF f d i s']
  have "trace s' =
       [E_fsnotify_close 10, E_eventpoll_release 10, E_locks_remove_file 10,
        E_fasync (- 1) 10 0, E_release (Some 30) 10, E_security_file_free 10,
        E_ima_file_free 10, E_fops_put (Some \<lparr>fop_fasync = True, fop_release = True\<rparr>),
        E_put_pid None, E_put_write_access 30, E_mnt_drop_write 40, E_file_release_write 10,
        E_clear_dentry 10, E_clear_mnt 10, E_clear_inode 10, E_percpu_counter_dec,
        E_file_check_state 10, E_call_rcu 10, E_dput 20, E_mntput (Some 40)]"
    unfolding r(1) ino
    by (simp add: event_defs wm dm fa m flds)
  moreover have "files s' 10 = Some (ex_file\<lparr>f_count := 0, f_mnt_write_state := 3, f_path_dentry := None,
                                 f_path_mnt := None, f_inode := None\<rparr>)"
    unfolding r(2) ino by (simp add: wm dm) (simp add: ex_file_def FILE_MNT_WRITE_RELEASED_def)
  moreover have "percpu_counter_sum (nr_files s') = 0"
    unfolding r(3)
    by (simp add: percpu_counter_sum_add ex_state_def) (simp add: percpu_counter_sum_def upt_rec)
  moreover have "rcu_pending s' = [10]"
    unfolding r(4) by (simp add: ex_state_def)
  ultimately show ?thesis using eq s' by simp
qed

lemma and_mode_exclusive:
  "(m::32 word) AND (FMODE_READ OR FMODE_WRITE) = FMODE_READ \<Longrightarrow> m AND FMODE_WRITE = 0"
proof -
  assume h: "m AND (FMODE_READ OR FMODE_WRITE) = FMODE_READ"
  have "m AND FMODE_WRITE = (m AND (FMODE_READ OR FMODE_WRITE)) AND FMODE_WRITE"
    by (simp add: FMODE_READ_def FMODE_WRITE_def and.assoc)
  also have "\<dots> = 0" unfolding h by (simp add: FMODE_READ_def FMODE_WRITE_def)
  finally show ?thesis .
qed

lemma modes_exclusive: "\<not> (readonly_mode f \<and> write_mode f)"
  using and_mode_exclusive [of "f_mode f"] by (auto simp: readonly_mode_def write_mode_def)

lemma teardown_runs_append [simp]:
  "teardown_runs a (xs @ ys) = teardown_runs a xs + teardown_runs a ys"
  by (simp add: teardown_runs_def)

lemma teardown_runs_Nil [simp]: "teardown_runs a [] = 0"
  by (simp add: teardown_runs_def)

lemma teardown_runs_Cons [simp]:
  "teardown_runs a (e # es) = (if e = E_fsnotify_close a then 1 else 0) + teardown_runs a es"
  by (simp add: teardown_runs_def)

lemma teardown_runs_mnt_events [simp]: "teardown_runs a (mnt_events b m) = 0"
  by (cases m) (simp_all add: teardown_runs_def)



lemma ex_drop_once:
  "drop_file_write_access 10 ex_state =
     Some (file_release_write 10 (mnt_drop_write 40 (put_write_access 30 ex_state)))"
proof -
  have h: "files ex_state 10 = Some ex_file" "f_path_dentry ex_file = Some 20"
    "d_inode ex_state 20 = Some 30"
    by (simp_all add: ex_file_def ex_state_def)
  have "drops_mnt ex_file (inodes ex_state 30)"
    by (simp add: drops_mnt_def file_check_writeable_def ex_file_def ex_state_def ex_inode_def
        special_file_def S_IFMT_def S_IFCHR_def S_IFBLK_def S_IFIFO_def S_IFSOCK_def
        FILE_MNT_WRITE_TAKEN_def)
  then show ?thesis
    unfolding drop_file_write_access_closed [OF h] by (simp add: ex_file_def)
qed

lemma ex_drop_twice:
  "drop_file_write_access 10 (file_release_write 10 (mnt_drop_write 40 (put_write_access 30 ex_state))) =
     Some (put_write_access 30 (file_release_write 10 (mnt_drop_write 40 (put_write_access 30 ex_state))))"
proof -
  let ?s1 = "file_release_write 10 (mnt_drop_write 40 (put_write_access 30 ex_state))"
  let ?f1 = "ex_file\<lparr>f_mnt_write_state := f_mnt_write_state ex_file OR FILE_MNT_WRITE_RELEASED\<rparr>"
  have h: "files ?s1 10 = Some ?f1" "f_path_dentry ?f1 = Some 20" "d_inode ?s1 20 = Some 30"
    by (simp_all add: ex_file_def ex_state_def)
  have "\<not> drops_mnt ?f1 (inodes ?s1 30)"
    by (simp add: drops_mnt_def file_check_writeable_def ex_file_def
        FILE_MNT_WRITE_TAKEN_def FILE_MNT_WRITE_RELEASED_def EINVAL_def)
  then show ?thesis
    unfolding drop_file_write_access_closed [OF h] by simp
qed

lemma pc_cpus_add [simp]: "pc_cpus (percpu_counter_add b c amount fbc) = pc_cpus fbc"
  by (simp add: percpu_counter_add_def Let_def)

lemma percpu_counter_inc_simps [simp]:
  "trace (percpu_counter_inc s) = trace s @ [E_percpu_counter_inc]"
  "files (percpu_counter_inc s) = files s"
  "nr_files (percpu_counter_inc s) = percpu_counter_add (percpu_counter_batch s) (cpu s) 1 (nr_files s)"
  "percpu_counter_batch (percpu_counter_inc s) = percpu_counter_batch s"
  "cpu (percpu_counter_inc s) = cpu s"
  "rcu_pending (percpu_counter_inc s) = rcu_pending s"
  by (simp_all add: percpu_counter_inc_def)

lemma get_empty_filp_over:
  "over_limit e s \<Longrightarrow> get_empty_filp e s = (Inl ResourceLimitExceeded, over_path s)"
  by (simp add: get_empty_filp_def over_limit_def)

lemma get_empty_filp_oom:
  "\<not> over_limit e s \<Longrightarrow> zalloc_result e = None \<Longrightarrow> get_empty_filp e s = (Inl OutOfMemory, s)"
  by (auto simp add: get_empty_filp_def over_limit_def)

lemma over_path_simps [simp]:
  "nr_files (over_path s) = nr_files s"
  "files (over_path s) = files s"
  "rcu_pending (over_path s) = rcu_pending s"
  "trace (over_path s) =
     trace s @ (if old_max s <s get_nr_files s then [E_pr_info (unat (max_files s))] else [])"
  by (simp_all add: over_path_def get_max_files_def)

lemma get_empty_filp_denied:
  assumes "\<not> over_limit e s" "zalloc_result e = Some a" "security_file_alloc_ret e \<noteq> 0"
  shows "fst (get_empty_filp e s) = Inl ValidationDenied"
    and "trace (snd (get_empty_filp e s)) = trace s @
      [E_kmem_cache_zalloc a, E_percpu_counter_inc, E_get_cred (current_cred e),
       E_security_file_alloc a, E_percpu_counter_dec, E_file_check_state a, E_call_rcu a]"
    and "nr_files (snd (get_empty_filp e s)) =
      percpu_counter_add (percpu_counter_batch s) (cpu_after_hook e) (- 1)
        (percpu_counter_add (percpu_counter_batch s) (cpu s) 1 (nr_files s))"
    and "rcu_pending (snd (get_empty_filp e s)) = rcu_pending s @ [a]"
    and "files (snd (get_empty_filp e s)) a = Some (zeroed_file\<lparr>f_cred := Some (current_cred e)\<rparr>)"
  using assms by (auto simp add: get_empty_filp_def over_limit_def Let_def)

lemma get_empty_filp_ok:
  assumes "\<not> over_limit e s" "zalloc_result e = Some a" "security_file_alloc_ret e = 0"
  shows "fst (get_empty_filp e s) = Inr a"
    and "files (snd (get_empty_filp e s)) a =
           Some (zeroed_file\<lparr>f_cred := Some (current_cred e), f_count := 1\<rparr>)"
    and "nr_files (snd (get_empty_filp e s)) =
           percpu_counter_add (percpu_counter_batch s) (cpu s) 1 (nr_files s)"
  using assms by (auto simp add: get_empty_filp_def over_limit_def Let_def)

lemma ex_counts:
  "get_nr_files ex_full = 3" "percpu_counter_sum_positive (nr_files ex_full) = 3"
  "max_files ex_full = 3"
  "get_nr_files ex_crowded = 0" "percpu_counter_sum_positive (nr_files ex_crowded) = 3"
  "max_files ex_crowded = 3"
  by (simp_all add: get_nr_files_def percpu_counter_read_positive_def
      percpu_counter_sum_positive_def percpu_counter_sum_def ex_full_def ex_crowded_def
      ex_state_def upt_rec)






lemma more_simps [simp]:
  "max_files (i_readcount_dec i s) = max_files s" "old_max (i_readcount_dec i s) = old_max s"
  "max_files (put_write_access i s) = max_files s" "old_max (put_write_access i s) = old_max s"
  "max_files (mnt_drop_write m s) = max_files s" "old_max (mnt_drop_write m s) = old_max s"
  "max_files (file_release_write a s) = max_files s" "old_max (file_release_write a s) = old_max s"
  by (simp_all add: i_readcount_dec_def put_write_access_def mnt_drop_write_def file_release_write_def)

lemma final_fput_state:
  assumes f: "files s a = Some f" and d: "f_path_dentry f = Some d" and i: "d_inode s d = Some i"
    and m: "f_path_mnt f = Some m"
  shows "final_fput a s = Some (s
     \<lparr>files := (files s)(a \<mapsto> f
         \<lparr>f_mnt_write_state :=
            (if write_mode f \<and> drops_mnt f (inodes s i)
             then f_mnt_write_state f OR FILE_MNT_WRITE_RELEASED else f_mnt_write_state f),
          f_path_dentry := None, f_path_mnt := None, f_inode := None\<rparr>),
      inodes := (inodes s)(i := (inodes s i)
         \<lparr>i_writecount := i_writecount (inodes s i) - (if write_mode f then 1 else 0),
          i_readcount := i_readcount (inodes s i) - (if readonly_mode f then 1 else 0)\<rparr>),
      mnt_writers := (mnt_writers s)
         (m := mnt_writers s m - (if write_mode f \<and> drops_mnt f (inodes s i) then 1 else 0)),
      nr_files := percpu_counter_add (percpu_counter_batch s) (cpu s) (- 1) (nr_files s),
      rcu_pending := rcu_pending s @ [a],
      trace := trace s @ phase1_events a i f (inodes s i) @ readcount_events i f @
           (if write_mode f then write_events a i f (inodes s i) else []) @
           closing_events a d (f_path_mnt f)\<rparr>)"
proof -
  let ?s11 = "after_readcount a i f s"
  have f11: "files ?s11 a = Some f" by (simp add: f)
  have i11: "d_inode ?s11 d = Some i" by (simp add: i)
  have dm: "drops_mnt f (inodes ?s11 i) = drops_mnt f (inodes s i)"
    by (simp add: drops_mnt_def)
  note c = drop_file_write_access_closed [OF f11 d i11, unfolded dm]
  show ?thesis
    unfolding final_fput_closed [OF f d i] c
    apply (cases "write_mode f"; cases "readonly_mode f"; cases "drops_mnt f (inodes s i)")
    apply (simp_all add: m)
    apply (rule kstate.equality; simp add: after_readcount_def f fun_eq_iff write_events_def
        readcount_events_def closing_events_def m)+
    done
qed





lemma ex_wrapped_counts:
  "get_nr_files ex_wrapped = 1" "max_files ex_wrapped = 3"
  "percpu_counter_read_positive (nr_files ex_wrapped) = 4294967297"
  "percpu_counter_sum_positive (nr_files ex_wrapped) = 4294967297"
  by (simp_all add: get_nr_files_def percpu_counter_read_positive_def
      percpu_counter_sum_positive_def percpu_counter_sum_def ex_wrapped_def ex_state_def upt_rec)

section \<open>The claims\<close>

subsection \<open>C10: the release of a file that was never opened\<close>

text \<open>C10, as the code has it: when the decrement of \<open>put_filp\<close> reaches 0, none of the
  statements of \<open>__fput\<close> runs except \<open>security_file_free\<close>; \<open>file_free\<close>
  decrements the live count and queues the callback, and the file stays allocated, its
  credentials held. Only the callback \<open>file_free_rcu\<close>, run after the grace period,
  releases the credentials and returns the structure to the slab: the reclamation is
  deferred here as it is after a full teardown.\<close>

theorem put_filp_final:
  assumes "files s a = Some f" and "f_count f - 1 = 0" and "f_cred f = Some c"
  shows "\<exists>s' s''. put_filp a s = Some s' \<and>
           trace s' = trace s @ [E_security_file_free a, E_percpu_counter_dec,
                                 E_file_check_state a, E_call_rcu a] \<and>
           rcu_pending s' = rcu_pending s @ [a] \<and>
           files s' a = Some (f\<lparr>f_count := 0\<rparr>) \<and>
           file_free_rcu a s' = Some s'' \<and>
           trace s'' = trace s' @ [E_put_cred c, E_kmem_cache_free a] \<and>
           files s'' a = None"
  using assms
  by (simp add: put_filp_def atomic_long_dec_and_test_def file_free_rcu_def)

text \<open>The theorem at the example file, whose count is 1 and whose credentials are at
  address 50.\<close>

theorem put_filp_final_witness:
  "files ex_state 10 = Some ex_file \<and> f_count ex_file - 1 = 0 \<and> f_cred ex_file = Some 50 \<and>
   (\<exists>s' s''. put_filp 10 ex_state = Some s' \<and>
           trace s' = trace ex_state @ [E_security_file_free 10, E_percpu_counter_dec,
                                 E_file_check_state 10, E_call_rcu 10] \<and>
           rcu_pending s' = rcu_pending ex_state @ [10] \<and>
           files s' 10 = Some (ex_file\<lparr>f_count := 0\<rparr>) \<and>
           file_free_rcu 10 s' = Some s'' \<and>
           trace s'' = trace s' @ [E_put_cred 50, E_kmem_cache_free 10] \<and>
           files s'' 10 = None)"
proof -
  have h: "files ex_state 10 = Some ex_file" "f_count ex_file - 1 = 0" "f_cred ex_file = Some 50"
    by (simp_all add: ex_file_def)
  from put_filp_final [OF h] h show ?thesis by blast
qed

text \<open>On the example file \<open>put_filp\<close> records \<open>security_file_free\<close> and the three
  calls of \<open>file_free\<close>, and nothing else: neither \<open>put_cred\<close> nor
  \<open>kmem_cache_free\<close> has run when it returns, the file is still allocated, and the
  callback is pending.\<close>

theorem put_filp_defers_counterexample:
  "map_option (\<lambda>s'. (trace s', rcu_pending s', files s' 10 \<noteq> None)) (put_filp 10 ex_state) =
     Some ([E_security_file_free 10, E_percpu_counter_dec, E_file_check_state 10, E_call_rcu 10],
           [10], True)"
  by (simp add: put_filp_def atomic_long_dec_and_test_def ex_state_def ex_file_def)

subsection \<open>C7: where the live count goes down\<close>

text \<open>C7, as the code has it: the decrement of the live count that pairs with the
  increment of a successful admission is made by \<open>file_free\<close>, inside the synchronous
  teardown: after the path of the file is cleared and before the callback is queued. When
  \<open>__fput\<close> returns, the exact count is one lower, the callback is pending and the
  file is still allocated; the callback \<open>file_free_rcu\<close> leaves the counter as it
  is. So between the end of teardown and reclamation the object is no longer counted as
  live.\<close>

theorem live_count_drops_in_file_free:
  assumes "files s a = Some f" and "f_path_dentry f = Some d" and "d_inode s d = Some i"
    and "final_fput a s = Some s'" and "cpu s < pc_cpus (nr_files s)"
    and "file_free_rcu a s' = Some s''"
  shows "percpu_counter_sum (nr_files s') = percpu_counter_sum (nr_files s) - 1 \<and>
         rcu_pending s' = rcu_pending s @ [a] \<and> files s' a \<noteq> None \<and>
         (\<exists>pre. trace s' = trace s @ pre @
             [E_clear_inode a, E_percpu_counter_dec, E_file_check_state a, E_call_rcu a,
              E_dput d, E_mntput (f_path_mnt f)] \<and>
            E_percpu_counter_dec \<notin> set pre) \<and>
         nr_files s'' = nr_files s' \<and> files s'' a = None \<and>
         (\<exists>c. trace s'' = trace s' @ [E_put_cred c, E_kmem_cache_free a])"
proof -
  note r = final_fput_result [OF assms(1-4)]
  have "percpu_counter_sum (nr_files s') = percpu_counter_sum (nr_files s) - 1"
    unfolding r(3) by (simp add: percpu_counter_sum_add assms(5))
  moreover have "\<exists>pre. trace s' = trace s @ pre @
             [E_clear_inode a, E_percpu_counter_dec, E_file_check_state a, E_call_rcu a,
              E_dput d, E_mntput (f_path_mnt f)] \<and>
            E_percpu_counter_dec \<notin> set pre"
  proof (intro exI conjI)
    show "trace s' = trace s @
        (phase1_events a i f (inodes s i) @ readcount_events i f @
           (if write_mode f then write_events a i f (inodes s i) else []) @
           [E_clear_dentry a, E_clear_mnt a]) @
        [E_clear_inode a, E_percpu_counter_dec, E_file_check_state a, E_call_rcu a,
         E_dput d, E_mntput (f_path_mnt f)]"
      unfolding r(1) by (simp add: closing_events_def)
    show "E_percpu_counter_dec \<notin> set (phase1_events a i f (inodes s i) @ readcount_events i f @
           (if write_mode f then write_events a i f (inodes s i) else []) @
           [E_clear_dentry a, E_clear_mnt a])"
      using mnt_events_set [of a "f_path_mnt f"]
      by (auto simp add: event_defs split: option.split)
  qed
  moreover from assms(6) have "nr_files s'' = nr_files s' \<and> files s'' a = None \<and>
         (\<exists>c. trace s'' = trace s' @ [E_put_cred c, E_kmem_cache_free a])"
    by (auto simp: file_free_rcu_def split: option.splits)
  ultimately show ?thesis using r(2,4) by simp
qed

text \<open>The theorem at the example file.\<close>

theorem live_count_drops_in_file_free_witness:
  "\<exists>s' s''. files ex_state 10 = Some ex_file \<and> f_path_dentry ex_file = Some 20 \<and>
     d_inode ex_state 20 = Some 30 \<and> final_fput 10 ex_state = Some s' \<and>
     cpu ex_state < pc_cpus (nr_files ex_state) \<and> file_free_rcu 10 s' = Some s'' \<and>
     percpu_counter_sum (nr_files s') = percpu_counter_sum (nr_files ex_state) - 1 \<and>
     rcu_pending s' = rcu_pending ex_state @ [10] \<and> files s' 10 \<noteq> None \<and>
     nr_files s'' = nr_files s' \<and> files s'' 10 = None"
proof -
  have h: "files ex_state 10 = Some ex_file" "f_path_dentry ex_file = Some 20"
    "d_inode ex_state 20 = Some 30"
    by (simp_all add: ex_file_def ex_state_def)
  have m: "f_path_mnt ex_file = Some 40" by (simp add: ex_file_def)
  have c: "cpu ex_state < pc_cpus (nr_files ex_state)" by (simp add: ex_state_def)
  from final_fput_total [OF h m] obtain s' where s': "final_fput 10 ex_state = Some s'" ..
  from final_fput_result(2) [OF h s'] have "\<exists>g. files s' 10 = Some g \<and> f_cred g = Some 50"
    by (simp add: ex_file_def)
  then obtain s'' where s'': "file_free_rcu 10 s' = Some s''"
    by (auto simp: file_free_rcu_def)
  from live_count_drops_in_file_free [OF h s' c s''] h s' c s'' show ?thesis by blast
qed

text \<open>On the example state the exact count is 1; after the last \<open>fput\<close> of the file,
  with the callback still pending and the file still allocated, it is 0.\<close>

theorem live_count_deferred_counterexample:
  "percpu_counter_sum (nr_files ex_state) = 1 \<and>
   map_option (\<lambda>s'. (percpu_counter_sum (nr_files s'), rcu_pending s', files s' 10 \<noteq> None))
     (fput 10 ex_state) = Some (0, [10], True)"
proof -
  have "percpu_counter_sum (nr_files ex_state) = 1"
    by (simp add: percpu_counter_sum_def ex_state_def upt_rec)
  moreover from ex_release obtain s' where "fput 10 ex_state = Some s'"
    "files s' 10 = Some (ex_file\<lparr>f_count := 0, f_mnt_write_state := 3, f_path_dentry := None,
                                 f_path_mnt := None, f_inode := None\<rparr>)"
    "percpu_counter_sum (nr_files s') = 0" "rcu_pending s' = [10]" by blast
  ultimately show ?thesis by simp
qed

subsection \<open>C8: the credentials outlive the teardown\<close>

text \<open>C8: in a teardown no call of \<open>put_cred\<close> (and none of \<open>kmem_cache_free\<close>)
  is made; \<open>security_file_free\<close> and \<open>ima_file_free\<close> run, and when \<open>__fput\<close>
  returns the file is allocated with its credentials in place and the callback pending.
  The credentials are released by the callback \<open>file_free_rcu\<close>, after the grace
  period.\<close>

theorem credentials_released_by_callback:
  assumes "files s a = Some f" and "f_path_dentry f = Some d" and "d_inode s d = Some i"
    and "final_fput a s = Some s'" and "f_cred f = Some c"
  shows "\<exists>pre mid post s''.
           trace s' = trace s @ pre @ [E_security_file_free a, E_ima_file_free a] @ mid @
                        [E_call_rcu a] @ post \<and>
           (\<forall>c'. E_put_cred c' \<notin> set (pre @ mid @ post)) \<and>
           (\<forall>b. E_kmem_cache_free b \<notin> set (pre @ mid @ post)) \<and>
           (\<exists>g. files s' a = Some g \<and> f_cred g = Some c) \<and>
           rcu_pending s' = rcu_pending s @ [a] \<and>
           file_free_rcu a s' = Some s'' \<and>
           trace s'' = trace s' @ [E_put_cred c, E_kmem_cache_free a]"
proof -
  note r = final_fput_result [OF assms(1-4)]
  let ?pre = "[E_fsnotify_close a, E_eventpoll_release a, E_locks_remove_file a] @
     fasync_events a f @ release_events a (Some i) f"
  let ?mid = "cdev_events f (inodes s i) @ [E_fops_put (f_op f), E_put_pid (f_owner_pid f)] @
     readcount_events i f @ (if write_mode f then write_events a i f (inodes s i) else []) @
     [E_clear_dentry a, E_clear_mnt a, E_clear_inode a, E_percpu_counter_dec,
      E_file_check_state a]"
  let ?post = "[E_dput d, E_mntput (f_path_mnt f)]"
  have t: "trace s' = trace s @ ?pre @ [E_security_file_free a, E_ima_file_free a] @ ?mid @
                        [E_call_rcu a] @ ?post"
    unfolding r(1) by (simp add: phase1_events_def closing_events_def)
  have n1: "\<forall>c'. E_put_cred c' \<notin> set (?pre @ ?mid @ ?post)"
    using mnt_events_set [of a "f_path_mnt f"]
    by (auto simp add: event_defs split: option.split)
  have n2: "\<forall>b. E_kmem_cache_free b \<notin> set (?pre @ ?mid @ ?post)"
    using mnt_events_set [of a "f_path_mnt f"]
    by (auto simp add: event_defs split: option.split)
  have g: "\<exists>g. files s' a = Some g \<and> f_cred g = Some c"
    unfolding r(2) by (simp add: assms(5))
  then obtain s'' where s'': "file_free_rcu a s' = Some s''"
    "trace s'' = trace s' @ [E_put_cred c, E_kmem_cache_free a]"
    by (auto simp: file_free_rcu_def)
  from t n1 n2 g r(4) s'' show ?thesis by blast
qed

text \<open>The theorem at the example file, whose credentials are at address 50.\<close>

theorem credentials_released_by_callback_witness:
  "\<exists>s'. files ex_state 10 = Some ex_file \<and> f_path_dentry ex_file = Some 20 \<and>
     d_inode ex_state 20 = Some 30 \<and> final_fput 10 ex_state = Some s' \<and>
     f_cred ex_file = Some 50 \<and>
     (\<exists>pre mid post s''.
           trace s' = trace ex_state @ pre @ [E_security_file_free 10, E_ima_file_free 10] @ mid @
                        [E_call_rcu 10] @ post \<and>
           (\<forall>c'. E_put_cred c' \<notin> set (pre @ mid @ post)) \<and>
           (\<forall>b. E_kmem_cache_free b \<notin> set (pre @ mid @ post)) \<and>
           (\<exists>g. files s' 10 = Some g \<and> f_cred g = Some 50) \<and>
           rcu_pending s' = rcu_pending ex_state @ [10] \<and>
           file_free_rcu 10 s' = Some s'' \<and>
           trace s'' = trace s' @ [E_put_cred 50, E_kmem_cache_free 10])"
proof -
  have h: "files ex_state 10 = Some ex_file" "f_path_dentry ex_file = Some 20"
    "d_inode ex_state 20 = Some 30"
    by (simp_all add: ex_file_def ex_state_def)
  have m: "f_path_mnt ex_file = Some 40" by (simp add: ex_file_def)
  have c: "f_cred ex_file = Some 50" by (simp add: ex_file_def)
  from final_fput_total [OF h m] obtain s' where s': "final_fput 10 ex_state = Some s'" ..
  from credentials_released_by_callback [OF h s' c] h s' c show ?thesis by blast
qed

subsection \<open>C3: release\<close>

text \<open>C3, as the code has it: \<open>fput\<close> decrements the count. When the result is not 0
  the state is the one before but for \<open>f_count\<close> of the file: no other field, and
  nothing else, has changed. When the result is 0, on a file with its dentry, inode and
  mount in place, \<open>fput\<close> returns the state that \<open>__fput\<close> leaves, given here in
  full: the record of its calls in their order, each conditional call under its condition;
  the file with its count at 0, its write state and its path cleared; the two counters of
  the inode; the writer count of the mount; the live count; the callback queued. The
  callback is queued by \<open>call_rcu\<close> inside \<open>__fput\<close>, after the three stores that
  clear the path and before \<open>dput\<close> and \<open>mntput\<close>, the last two calls of the
  teardown: the reclamation is scheduled before the teardown has finished, not after
  it. The structure is not returned to the slab in the call.\<close>

theorem fput_release:
  assumes "files s a = Some f"
  shows "(f_count f - 1 \<noteq> 0 \<longrightarrow>
            fput a s = Some (s\<lparr>files := (files s)(a \<mapsto> f\<lparr>f_count := f_count f - 1\<rparr>)\<rparr>)) \<and>
         (f_count f - 1 = 0 \<and> f_path_dentry f = Some d \<and> d_inode s d = Some i \<and>
          f_path_mnt f = Some m \<longrightarrow>
            fput a s = Some (s
              \<lparr>files := (files s)(a \<mapsto> f
                 \<lparr>f_count := 0,
                  f_mnt_write_state :=
                    (if f_mode f AND FMODE_WRITE \<noteq> 0 \<and> \<not> special_file (i_mode (inodes s i)) \<and>
                        f_mnt_write_state f = FILE_MNT_WRITE_TAKEN
                     then f_mnt_write_state f OR FILE_MNT_WRITE_RELEASED
                     else f_mnt_write_state f),
                  f_path_dentry := None, f_path_mnt := None, f_inode := None\<rparr>),
               inodes := (inodes s)(i := (inodes s i)
                 \<lparr>i_writecount := i_writecount (inodes s i) -
                    (if f_mode f AND FMODE_WRITE \<noteq> 0 then 1 else 0),
                  i_readcount := i_readcount (inodes s i) -
                    (if f_mode f AND (FMODE_READ OR FMODE_WRITE) = FMODE_READ then 1 else 0)\<rparr>),
               mnt_writers := (mnt_writers s)(m := mnt_writers s m -
                    (if f_mode f AND FMODE_WRITE \<noteq> 0 \<and> \<not> special_file (i_mode (inodes s i)) \<and>
                        f_mnt_write_state f = FILE_MNT_WRITE_TAKEN
                     then 1 else 0)),
               nr_files := percpu_counter_add (percpu_counter_batch s) (cpu s) (- 1) (nr_files s),
               rcu_pending := rcu_pending s @ [a],
               trace := trace s @
                 [E_fsnotify_close a, E_eventpoll_release a, E_locks_remove_file a] @
                 (if f_flags f AND FASYNC \<noteq> 0 \<and>
                     (case f_op f of None \<Rightarrow> False | Some ops \<Rightarrow> fop_fasync ops)
                  then [E_fasync (- 1) a 0] else []) @
                 (if (case f_op f of None \<Rightarrow> False | Some ops \<Rightarrow> fop_release ops)
                  then [E_release (Some i) a] else []) @
                 [E_security_file_free a, E_ima_file_free a] @
                 (case i_cdev (inodes s i) of
                    None \<Rightarrow> []
                  | Some c \<Rightarrow>
                      if S_ISCHR (i_mode (inodes s i)) \<and> f_mode f AND FMODE_PATH = 0
                      then [E_cdev_put c] else []) @
                 [E_fops_put (f_op f), E_put_pid (f_owner_pid f)] @
                 (if f_mode f AND (FMODE_READ OR FMODE_WRITE) = FMODE_READ
                  then [E_i_readcount_dec i] else []) @
                 (if f_mode f AND FMODE_WRITE \<noteq> 0
                  then E_put_write_access i #
                       (if \<not> special_file (i_mode (inodes s i)) \<and>
                           f_mnt_write_state f = FILE_MNT_WRITE_TAKEN
                        then [E_mnt_drop_write m, E_file_release_write a] else [])
                  else []) @
                 [E_clear_dentry a, E_clear_mnt a, E_clear_inode a, E_percpu_counter_dec,
                  E_file_check_state a, E_call_rcu a, E_dput d, E_mntput (Some m)]\<rparr>))"
proof (intro conjI impI)
  assume "f_count f - 1 \<noteq> 0"
  with assms show "fput a s = Some (s\<lparr>files := (files s)(a \<mapsto> f\<lparr>f_count := f_count f - 1\<rparr>)\<rparr>)"
    by (rule fput_not_last)
next
  assume h: "f_count f - 1 = 0 \<and> f_path_dentry f = Some d \<and> d_inode s d = Some i \<and>
          f_path_mnt f = Some m"
  let ?f0 = "f\<lparr>f_count := 0\<rparr>"
  let ?s0 = "s\<lparr>files := (files s)(a \<mapsto> ?f0)\<rparr>"
  have f: "files ?s0 a = Some ?f0" by simp
  have d: "f_path_dentry ?f0 = Some d" using h by simp
  have i: "d_inode ?s0 d = Some i" using h by simp
  have m: "f_path_mnt ?f0 = Some m" using h by simp
  have eq: "fput a s = final_fput a ?s0" using assms h by (simp add: fput_last)
  have dm: "drops_mnt ?f0 (inodes s i) =
      (\<not> special_file (i_mode (inodes s i)) \<and> f_mnt_write_state f = FILE_MNT_WRITE_TAKEN)"
    by (simp add: drops_mnt_def file_check_writeable_def EINVAL_def)
  show "fput a s = Some (s
              \<lparr>files := (files s)(a \<mapsto> f
                 \<lparr>f_count := 0,
                  f_mnt_write_state :=
                    (if f_mode f AND FMODE_WRITE \<noteq> 0 \<and> \<not> special_file (i_mode (inodes s i)) \<and>
                        f_mnt_write_state f = FILE_MNT_WRITE_TAKEN
                     then f_mnt_write_state f OR FILE_MNT_WRITE_RELEASED
                     else f_mnt_write_state f),
                  f_path_dentry := None, f_path_mnt := None, f_inode := None\<rparr>),
               inodes := (inodes s)(i := (inodes s i)
                 \<lparr>i_writecount := i_writecount (inodes s i) -
                    (if f_mode f AND FMODE_WRITE \<noteq> 0 then 1 else 0),
                  i_readcount := i_readcount (inodes s i) -
                    (if f_mode f AND (FMODE_READ OR FMODE_WRITE) = FMODE_READ then 1 else 0)\<rparr>),
               mnt_writers := (mnt_writers s)(m := mnt_writers s m -
                    (if f_mode f AND FMODE_WRITE \<noteq> 0 \<and> \<not> special_file (i_mode (inodes s i)) \<and>
                        f_mnt_write_state f = FILE_MNT_WRITE_TAKEN
                     then 1 else 0)),
               nr_files := percpu_counter_add (percpu_counter_batch s) (cpu s) (- 1) (nr_files s),
               rcu_pending := rcu_pending s @ [a],
               trace := trace s @
                 [E_fsnotify_close a, E_eventpoll_release a, E_locks_remove_file a] @
                 (if f_flags f AND FASYNC \<noteq> 0 \<and>
                     (case f_op f of None \<Rightarrow> False | Some ops \<Rightarrow> fop_fasync ops)
                  then [E_fasync (- 1) a 0] else []) @
                 (if (case f_op f of None \<Rightarrow> False | Some ops \<Rightarrow> fop_release ops)
                  then [E_release (Some i) a] else []) @
                 [E_security_file_free a, E_ima_file_free a] @
                 (case i_cdev (inodes s i) of
                    None \<Rightarrow> []
                  | Some c \<Rightarrow>
                      if S_ISCHR (i_mode (inodes s i)) \<and> f_mode f AND FMODE_PATH = 0
                      then [E_cdev_put c] else []) @
                 [E_fops_put (f_op f), E_put_pid (f_owner_pid f)] @
                 (if f_mode f AND (FMODE_READ OR FMODE_WRITE) = FMODE_READ
                  then [E_i_readcount_dec i] else []) @
                 (if f_mode f AND FMODE_WRITE \<noteq> 0
                  then E_put_write_access i #
                       (if \<not> special_file (i_mode (inodes s i)) \<and>
                           f_mnt_write_state f = FILE_MNT_WRITE_TAKEN
                        then [E_mnt_drop_write m, E_file_release_write a] else [])
                  else []) @
                 [E_clear_dentry a, E_clear_mnt a, E_clear_inode a, E_percpu_counter_dec,
                  E_file_check_state a, E_call_rcu a, E_dput d, E_mntput (Some m)]\<rparr>)"
    unfolding eq final_fput_state [OF f d i m]
    using h
    by (cases "i_cdev (inodes s i)")
      (simp_all add: dm write_mode_def readonly_mode_def event_defs)
qed

text \<open>The theorem at the example file, whose count is 1, and at the same file with a
  count of 2.\<close>

theorem fput_release_witness:
  "files ex_state 10 = Some ex_file \<and> f_count ex_file - 1 = 0 \<and>
   f_path_dentry ex_file = Some 20 \<and> d_inode ex_state 20 = Some 30 \<and>
   f_path_mnt ex_file = Some 40 \<and>
   (\<exists>s'. fput 10 ex_state = Some s' \<and>
      trace s' =
        [E_fsnotify_close 10, E_eventpoll_release 10, E_locks_remove_file 10,
         E_fasync (- 1) 10 0, E_release (Some 30) 10, E_security_file_free 10,
         E_ima_file_free 10, E_fops_put (Some \<lparr>fop_fasync = True, fop_release = True\<rparr>),
         E_put_pid None, E_put_write_access 30, E_mnt_drop_write 40, E_file_release_write 10,
         E_clear_dentry 10, E_clear_mnt 10, E_clear_inode 10, E_percpu_counter_dec,
         E_file_check_state 10, E_call_rcu 10, E_dput 20, E_mntput (Some 40)] \<and>
      rcu_pending s' = [10] \<and> i_writecount (inodes s' 30) = 0 \<and> mnt_writers s' 40 = 0 \<and>
      map_option f_count (files s' 10) = Some 0) \<and>
   files (ex_state\<lparr>files := (files ex_state)(10 \<mapsto> ex_file\<lparr>f_count := 2\<rparr>)\<rparr>) 10 =
     Some (ex_file\<lparr>f_count := 2\<rparr>) \<and>
   f_count (ex_file\<lparr>f_count := 2\<rparr>) - 1 \<noteq> 0 \<and>
   fput 10 (ex_state\<lparr>files := (files ex_state)(10 \<mapsto> ex_file\<lparr>f_count := 2\<rparr>)\<rparr>) =
     Some (ex_state\<lparr>files := (files ex_state)(10 \<mapsto> ex_file\<lparr>f_count := 1\<rparr>)\<rparr>)"
proof -
  have h: "files ex_state 10 = Some ex_file" by simp
  have k: "f_count ex_file - 1 = 0 \<and> f_path_dentry ex_file = Some 20 \<and>
      d_inode ex_state 20 = Some 30 \<and> f_path_mnt ex_file = Some 40"
    by (simp add: ex_file_def ex_state_def)
  have sp: "\<not> special_file (i_mode (inodes ex_state 30))"
    by (simp add: special_file_def ex_state_def ex_inode_def S_IFMT_def S_IFCHR_def
        S_IFBLK_def S_IFIFO_def S_IFSOCK_def)
  have chr: "\<not> S_ISCHR (i_mode (inodes ex_state 30))"
    by (simp add: S_ISCHR_def ex_state_def ex_inode_def S_IFMT_def S_IFCHR_def)
  have md: "f_mode ex_file AND FMODE_WRITE \<noteq> 0"
    "f_mode ex_file AND (FMODE_READ OR FMODE_WRITE) \<noteq> FMODE_READ"
    "f_flags ex_file AND FASYNC \<noteq> 0" "f_mnt_write_state ex_file = FILE_MNT_WRITE_TAKEN"
    by (simp_all add: ex_file_def FMODE_READ_def FMODE_WRITE_def FASYNC_def
        FILE_MNT_WRITE_TAKEN_def)
  have fl: "f_op ex_file = Some \<lparr>fop_fasync = True, fop_release = True\<rparr>"
    "f_owner_pid ex_file = None" "i_cdev (inodes ex_state 30) = None" "trace ex_state = []"
    "rcu_pending ex_state = []" "i_writecount (inodes ex_state 30) = 1"
    "mnt_writers ex_state 40 = 1"
    by (simp_all add: ex_file_def ex_state_def ex_inode_def)
  from fput_release [OF h, of 20 30 40] k
  have a: "\<exists>s'. fput 10 ex_state = Some s' \<and>
      trace s' =
        [E_fsnotify_close 10, E_eventpoll_release 10, E_locks_remove_file 10,
         E_fasync (- 1) 10 0, E_release (Some 30) 10, E_security_file_free 10,
         E_ima_file_free 10, E_fops_put (Some \<lparr>fop_fasync = True, fop_release = True\<rparr>),
         E_put_pid None, E_put_write_access 30, E_mnt_drop_write 40, E_file_release_write 10,
         E_clear_dentry 10, E_clear_mnt 10, E_clear_inode 10, E_percpu_counter_dec,
         E_file_check_state 10, E_call_rcu 10, E_dput 20, E_mntput (Some 40)] \<and>
      rcu_pending s' = [10] \<and> i_writecount (inodes s' 30) = 0 \<and> mnt_writers s' 40 = 0 \<and>
      map_option f_count (files s' 10) = Some 0"
    by (simp add: sp chr md fl)
  let ?s2 = "ex_state\<lparr>files := (files ex_state)(10 \<mapsto> ex_file\<lparr>f_count := 2\<rparr>)\<rparr>"
  have h2: "files ?s2 10 = Some (ex_file\<lparr>f_count := 2\<rparr>)" by simp
  have n2: "f_count (ex_file\<lparr>f_count := 2\<rparr>) - 1 \<noteq> 0" by simp
  from fput_release [OF h2, of 20 30 40] n2
  have b: "fput 10 ?s2 = Some (ex_state\<lparr>files := (files ex_state)(10 \<mapsto> ex_file\<lparr>f_count := 1\<rparr>)\<rparr>)"
    by simp
  from h k a h2 n2 b show ?thesis by blast
qed

text \<open>The record of the last \<open>fput\<close> of the example file: \<open>call_rcu\<close> is followed by
  \<open>dput\<close> and \<open>mntput\<close>, so the reclamation is scheduled while two calls of the
  teardown are still to come.\<close>

theorem reclamation_before_dput_counterexample:
  "map_option trace (fput 10 ex_state) =
     Some [E_fsnotify_close 10, E_eventpoll_release 10, E_locks_remove_file 10,
           E_fasync (- 1) 10 0, E_release (Some 30) 10, E_security_file_free 10,
           E_ima_file_free 10, E_fops_put (Some \<lparr>fop_fasync = True, fop_release = True\<rparr>),
           E_put_pid None, E_put_write_access 30, E_mnt_drop_write 40,
           E_file_release_write 10, E_clear_dentry 10, E_clear_mnt 10, E_clear_inode 10,
           E_percpu_counter_dec, E_file_check_state 10, E_call_rcu 10, E_dput 20,
           E_mntput (Some 40)]"
proof -
  from ex_release obtain s' where "fput 10 ex_state = Some s'"
    "trace s' =
       [E_fsnotify_close 10, E_eventpoll_release 10, E_locks_remove_file 10,
        E_fasync (- 1) 10 0, E_release (Some 30) 10, E_security_file_free 10,
        E_ima_file_free 10, E_fops_put (Some \<lparr>fop_fasync = True, fop_release = True\<rparr>),
        E_put_pid None, E_put_write_access 30, E_mnt_drop_write 40, E_file_release_write 10,
        E_clear_dentry 10, E_clear_mnt 10, E_clear_inode 10, E_percpu_counter_dec,
        E_file_check_state 10, E_call_rcu 10, E_dput 20, E_mntput (Some 40)]"
    by blast
  then show ?thesis by simp
qed

subsection \<open>C4: the order of teardown\<close>

text \<open>C4: in every teardown that returns, \<open>eventpoll_release\<close> is called once; the
  call \<open>fasync(-1, file, 0)\<close>, made exactly when the file has \<open>FASYNC\<close> set and its
  operations have a \<open>fasync\<close> member, comes after it and before the three stores that
  clear \<open>f_path.dentry\<close>, \<open>f_path.mnt\<close> and \<open>f_inode\<close>; no \<open>fasync\<close> call
  is made before the first or after the last of these.\<close>

theorem teardown_order:
  assumes "files s a = Some f" and "f_path_dentry f = Some d" and "d_inode s d = Some i"
    and "final_fput a s = Some s'"
  shows "\<exists>A B C.
           trace s' = trace s @ A @ [E_eventpoll_release a] @ B @
                        [E_clear_dentry a, E_clear_mnt a, E_clear_inode a] @ C \<and>
           (\<forall>x y. E_fasync x a y \<notin> set A \<and> E_fasync x a y \<notin> set C) \<and>
           (E_fasync (- 1) a 0 \<in> set B) =
             (f_flags f AND FASYNC \<noteq> 0 \<and> (\<exists>ops. f_op f = Some ops \<and> fop_fasync ops)) \<and>
           E_eventpoll_release a \<notin> set (A @ B @ C) \<and>
           E_clear_dentry a \<notin> set (A @ B @ C) \<and> E_clear_mnt a \<notin> set (A @ B @ C) \<and>
           E_clear_inode a \<notin> set (A @ B @ C) \<and>
           (\<exists>g. files s' a = Some g \<and> f_path_dentry g = None \<and> f_path_mnt g = None \<and>
                f_inode g = None)"
proof -
  note r = final_fput_result [OF assms]
  let ?A = "[E_fsnotify_close a]"
  let ?B = "[E_locks_remove_file a] @ fasync_events a f @ release_events a (Some i) f @
     [E_security_file_free a, E_ima_file_free a] @ cdev_events f (inodes s i) @
     [E_fops_put (f_op f), E_put_pid (f_owner_pid f)] @ readcount_events i f @
     (if write_mode f then write_events a i f (inodes s i) else [])"
  let ?C = "[E_percpu_counter_dec, E_file_check_state a, E_call_rcu a, E_dput d,
     E_mntput (f_path_mnt f)]"
  have t: "trace s' = trace s @ ?A @ [E_eventpoll_release a] @ ?B @
                        [E_clear_dentry a, E_clear_mnt a, E_clear_inode a] @ ?C"
    unfolding r(1) by (simp add: phase1_events_def closing_events_def)
  have fa: "\<forall>x y. E_fasync x a y \<notin> set ?A \<and> E_fasync x a y \<notin> set ?C" by simp
  have fb: "(E_fasync (- 1) a 0 \<in> set ?B) =
             (f_flags f AND FASYNC \<noteq> 0 \<and> (\<exists>ops. f_op f = Some ops \<and> fop_fasync ops))"
    using mnt_events_set [of a "f_path_mnt f"]
    by (auto simp add: event_defs split: option.splits)
  have n: "E_eventpoll_release a \<notin> set (?A @ ?B @ ?C) \<and>
           E_clear_dentry a \<notin> set (?A @ ?B @ ?C) \<and> E_clear_mnt a \<notin> set (?A @ ?B @ ?C) \<and>
           E_clear_inode a \<notin> set (?A @ ?B @ ?C)"
    using mnt_events_set [of a "f_path_mnt f"]
    by (auto simp add: event_defs split: option.splits)
  have g: "\<exists>g. files s' a = Some g \<and> f_path_dentry g = None \<and> f_path_mnt g = None \<and>
                f_inode g = None"
    unfolding r(2) by simp
  show ?thesis
    apply (rule exI [of _ ?A], rule exI [of _ ?B], rule exI [of _ ?C])
    using t fa fb n g by blast
qed

text \<open>The theorem at the example file, which has \<open>FASYNC\<close> set and a \<open>fasync\<close>
  member.\<close>

theorem teardown_order_witness:
  "\<exists>s'. files ex_state 10 = Some ex_file \<and> f_path_dentry ex_file = Some 20 \<and>
     d_inode ex_state 20 = Some 30 \<and> final_fput 10 ex_state = Some s' \<and>
     f_flags ex_file AND FASYNC \<noteq> 0 \<and> (\<exists>ops. f_op ex_file = Some ops \<and> fop_fasync ops) \<and>
     (\<exists>A B C.
           trace s' = trace ex_state @ A @ [E_eventpoll_release 10] @ B @
                        [E_clear_dentry 10, E_clear_mnt 10, E_clear_inode 10] @ C \<and>
           (\<forall>x y. E_fasync x 10 y \<notin> set A \<and> E_fasync x 10 y \<notin> set C) \<and>
           E_fasync (- 1) 10 0 \<in> set B \<and>
           E_eventpoll_release 10 \<notin> set (A @ B @ C) \<and>
           E_clear_dentry 10 \<notin> set (A @ B @ C) \<and> E_clear_mnt 10 \<notin> set (A @ B @ C) \<and>
           E_clear_inode 10 \<notin> set (A @ B @ C))"
proof -
  have h: "files ex_state 10 = Some ex_file" "f_path_dentry ex_file = Some 20"
    "d_inode ex_state 20 = Some 30"
    by (simp_all add: ex_file_def ex_state_def)
  have m: "f_path_mnt ex_file = Some 40" by (simp add: ex_file_def)
  have fl: "f_flags ex_file AND FASYNC \<noteq> 0 \<and> (\<exists>ops. f_op ex_file = Some ops \<and> fop_fasync ops)"
    by (simp add: ex_file_def FASYNC_def)
  from final_fput_total [OF h m] obtain s' where s': "final_fput 10 ex_state = Some s'" ..
  from teardown_order [OF h s'] fl
  have "\<exists>A B C.
           trace s' = trace ex_state @ A @ [E_eventpoll_release 10] @ B @
                        [E_clear_dentry 10, E_clear_mnt 10, E_clear_inode 10] @ C \<and>
           (\<forall>x y. E_fasync x 10 y \<notin> set A \<and> E_fasync x 10 y \<notin> set C) \<and>
           E_fasync (- 1) 10 0 \<in> set B \<and>
           E_eventpoll_release 10 \<notin> set (A @ B @ C) \<and>
           E_clear_dentry 10 \<notin> set (A @ B @ C) \<and> E_clear_mnt 10 \<notin> set (A @ B @ C) \<and>
           E_clear_inode 10 \<notin> set (A @ B @ C)"
    by blast
  with h s' fl show ?thesis by blast
qed

subsection \<open>C6: giving up write access twice\<close>

text \<open>C6, as the code has it: each call of \<open>drop_file_write_access\<close> decrements
  \<open>i_writecount\<close> of the inode, so two calls decrement it twice. What the guard on the
  file's write state protects is the mount: the second call records
  \<open>put_write_access\<close> and nothing else, and leaves the writer counts of the mounts as
  they are.\<close>

theorem second_drop_decrements_again:
  assumes "files s a = Some f" and "f_path_dentry f = Some d" and "d_inode s d = Some i"
    and "drop_file_write_access a s = Some s1" and "drop_file_write_access a s1 = Some s2"
  shows "i_writecount (inodes s1 i) = i_writecount (inodes s i) - 1 \<and>
         i_writecount (inodes s2 i) = i_writecount (inodes s i) - 2 \<and>
         trace s2 = trace s1 @ [E_put_write_access i] \<and>
         mnt_writers s2 = mnt_writers s1"
proof -
  note c1 = drop_file_write_access_closed [OF assms(1-3)]
  have "\<exists>f1. files s1 a = Some f1 \<and> f_path_dentry f1 = Some d \<and> d_inode s1 d = Some i \<and>
      \<not> drops_mnt f1 (inodes s1 i) \<and> i_writecount (inodes s1 i) = i_writecount (inodes s i) - 1"
  proof (cases "drops_mnt f (inodes s i)")
    case True
    with assms(4) c1 obtain m where m: "f_path_mnt f = Some m"
      and s1: "s1 = file_release_write a (mnt_drop_write m (put_write_access i s))"
      by (auto split: option.splits)
    from True have tk: "f_mnt_write_state f = FILE_MNT_WRITE_TAKEN"
      by (simp add: drops_mnt_def file_check_writeable_def EINVAL_def split: if_splits)
    show ?thesis
      by (simp add: s1 assms(1-3) drops_mnt_def file_check_writeable_def tk
          FILE_MNT_WRITE_TAKEN_def FILE_MNT_WRITE_RELEASED_def EINVAL_def)
  next
    case False
    with assms(4) c1 have s1: "s1 = put_write_access i s" by simp
    from False show ?thesis
      by (simp add: s1 assms(1-3) drops_mnt_def)
  qed
  then obtain f1 where f1: "files s1 a = Some f1" "f_path_dentry f1 = Some d"
    "d_inode s1 d = Some i" and nd: "\<not> drops_mnt f1 (inodes s1 i)"
    and w1: "i_writecount (inodes s1 i) = i_writecount (inodes s i) - 1" by blast
  from assms(5) nd have s2: "s2 = put_write_access i s1"
    unfolding drop_file_write_access_closed [OF f1] by simp
  show ?thesis by (simp add: s2 w1)
qed

text \<open>The theorem at the example file: a regular file, its write state "taken".\<close>

theorem second_drop_decrements_again_witness:
  "\<exists>s1 s2. files ex_state 10 = Some ex_file \<and> f_path_dentry ex_file = Some 20 \<and>
     d_inode ex_state 20 = Some 30 \<and> drop_file_write_access 10 ex_state = Some s1 \<and>
     drop_file_write_access 10 s1 = Some s2 \<and>
     i_writecount (inodes s1 30) = i_writecount (inodes ex_state 30) - 1 \<and>
     i_writecount (inodes s2 30) = i_writecount (inodes ex_state 30) - 2 \<and>
     trace s2 = trace s1 @ [E_put_write_access 30] \<and>
     mnt_writers s2 = mnt_writers s1"
proof -
  have h: "files ex_state 10 = Some ex_file" "f_path_dentry ex_file = Some 20"
    "d_inode ex_state 20 = Some 30"
    by (simp_all add: ex_file_def ex_state_def)
  from second_drop_decrements_again [OF h ex_drop_once ex_drop_twice] h ex_drop_once ex_drop_twice
  show ?thesis by blast
qed

text \<open>On the example file the inode's \<open>i_writecount\<close> is 1; it is 0 after one call of
  \<open>drop_file_write_access\<close> and \<open>-1\<close> after the second.\<close>

theorem drop_twice_counterexample:
  "i_writecount (inodes ex_state 30) = 1 \<and>
   map_option (\<lambda>s1. i_writecount (inodes s1 30)) (drop_file_write_access 10 ex_state) = Some 0 \<and>
   map_option (\<lambda>s2. i_writecount (inodes s2 30))
     (Option.bind (drop_file_write_access 10 ex_state) (drop_file_write_access 10)) = Some (- 1)"
  by (simp add: ex_drop_once ex_drop_twice) (simp add: ex_state_def ex_inode_def)

subsection \<open>C9: a failed acquire\<close>

text \<open>C9: when \<open>get_empty_filp\<close> passes the admission test and then fails, the exact
  live count is as before and no statement of \<open>__fput\<close> has run. When the slab
  returns NULL the state is untouched. When \<open>security_file_alloc\<close> denies the file,
  the increment already made is undone by \<open>file_free\<close> (on whichever CPU the caller
  then runs), and the record holds the allocation, the two counter operations and the
  queueing of the callback, and nothing of a teardown.\<close>

theorem failed_acquire_leaves_count:
  assumes "cpu s < pc_cpus (nr_files s)" and "cpu_after_hook e < pc_cpus (nr_files s)"
    and "\<not> (get_nr_files s \<ge> max_files s \<and> \<not> capable_sys_admin e \<and>
            percpu_counter_sum_positive (nr_files s) \<ge> uint (max_files s))"
  shows "(zalloc_result e = None \<longrightarrow> get_empty_filp e s = (Inl OutOfMemory, s)) \<and>
         (zalloc_result e = Some a \<and> security_file_alloc_ret e \<noteq> 0 \<longrightarrow>
            fst (get_empty_filp e s) = Inl ValidationDenied \<and>
            percpu_counter_sum (nr_files (snd (get_empty_filp e s))) =
              percpu_counter_sum (nr_files s) \<and>
            percpu_counter_sum_positive (nr_files (snd (get_empty_filp e s))) =
              percpu_counter_sum_positive (nr_files s) \<and>
            trace (snd (get_empty_filp e s)) = trace s @
              [E_kmem_cache_zalloc a, E_percpu_counter_inc, E_get_cred (current_cred e),
               E_security_file_alloc a, E_percpu_counter_dec, E_file_check_state a,
               E_call_rcu a] \<and>
            (\<forall>b. teardown_runs b (trace (snd (get_empty_filp e s))) = teardown_runs b (trace s)))"
proof (intro conjI impI)
  from assms(3) have no: "\<not> over_limit e s" by (simp add: over_limit_def)
  {
    assume "zalloc_result e = None"
    with no show "get_empty_filp e s = (Inl OutOfMemory, s)" by (rule get_empty_filp_oom)
  }
  assume h: "zalloc_result e = Some a \<and> security_file_alloc_ret e \<noteq> 0"
  then have z: "zalloc_result e = Some a" and d: "security_file_alloc_ret e \<noteq> 0" by simp_all
  note r = get_empty_filp_denied [OF no z d]
  show "fst (get_empty_filp e s) = Inl ValidationDenied" by (rule r(1))
  show sum: "percpu_counter_sum (nr_files (snd (get_empty_filp e s))) = percpu_counter_sum (nr_files s)"
    unfolding r(3) by (simp add: percpu_counter_sum_add assms(1,2))
  show "percpu_counter_sum_positive (nr_files (snd (get_empty_filp e s))) =
              percpu_counter_sum_positive (nr_files s)"
    by (simp add: percpu_counter_sum_positive_def sum)
  show "trace (snd (get_empty_filp e s)) = trace s @
              [E_kmem_cache_zalloc a, E_percpu_counter_inc, E_get_cred (current_cred e),
               E_security_file_alloc a, E_percpu_counter_dec, E_file_check_state a,
               E_call_rcu a]" by (rule r(2))
  show "\<forall>b. teardown_runs b (trace (snd (get_empty_filp e s))) = teardown_runs b (trace s)"
    unfolding r(2) by simp
qed

text \<open>The theorem at the example state, for a caller whose security hook returns
  \<open>-13\<close> and for a caller whose allocation fails.\<close>

theorem failed_acquire_leaves_count_witness:
  "cpu ex_state < pc_cpus (nr_files ex_state) \<and>
   cpu_after_hook (ex_env\<lparr>security_file_alloc_ret := - 13\<rparr>) < pc_cpus (nr_files ex_state) \<and>
   get_nr_files ex_state < max_files ex_state \<and>
   zalloc_result (ex_env\<lparr>security_file_alloc_ret := - 13\<rparr>) = Some 70 \<and>
   security_file_alloc_ret (ex_env\<lparr>security_file_alloc_ret := - 13\<rparr>) \<noteq> 0 \<and>
   fst (get_empty_filp (ex_env\<lparr>security_file_alloc_ret := - 13\<rparr>) ex_state) = Inl ValidationDenied \<and>
   percpu_counter_sum (nr_files (snd (get_empty_filp (ex_env\<lparr>security_file_alloc_ret := - 13\<rparr>) ex_state))) =
     percpu_counter_sum (nr_files ex_state) \<and>
   get_empty_filp (ex_env\<lparr>zalloc_result := None\<rparr>) ex_state = (Inl OutOfMemory, ex_state)"
proof -
  let ?e = "ex_env\<lparr>security_file_alloc_ret := - 13\<rparr>"
  let ?o = "ex_env\<lparr>zalloc_result := None\<rparr>"
  have c: "cpu ex_state < pc_cpus (nr_files ex_state)"
    "cpu_after_hook ?e < pc_cpus (nr_files ex_state)"
    "cpu_after_hook ?o < pc_cpus (nr_files ex_state)"
    by (simp_all add: ex_state_def ex_env_def)
  have lt: "get_nr_files ex_state < max_files ex_state"
    by (simp add: get_nr_files_def percpu_counter_read_positive_def ex_state_def)
  then have n: "\<not> (get_nr_files ex_state \<ge> max_files ex_state \<and> \<not> capable_sys_admin ?e \<and>
            percpu_counter_sum_positive (nr_files ex_state) \<ge> uint (max_files ex_state))"
    "\<not> (get_nr_files ex_state \<ge> max_files ex_state \<and> \<not> capable_sys_admin ?o \<and>
            percpu_counter_sum_positive (nr_files ex_state) \<ge> uint (max_files ex_state))"
    by (simp_all add: not_le)
  have z: "zalloc_result ?e = Some 70" "security_file_alloc_ret ?e \<noteq> 0" "zalloc_result ?o = None"
    by (simp_all add: ex_env_def)
  from failed_acquire_leaves_count [OF c(1,2) n(1), of 70] failed_acquire_leaves_count [OF c(1,3) n(2), of 70]
    c lt z
  show ?thesis by blast
qed

subsection \<open>C2: the ceiling\<close>

text \<open>C2, as the code has it: an unprivileged \<open>get_empty_filp\<close> takes the label
  \<open>over\<close> when both the fast approximate count, as \<open>get_nr_files\<close> returns it (a
  \<open>long\<close>, compared unsigned), and the exact sum are at or above \<open>max_files\<close>, and
  then nothing is allocated or counted. The exact sum is consulted only after the
  approximate count has reached the ceiling: below it, an unprivileged caller whose
  allocation and security hook succeed is admitted, whatever the exact sum. A caller with
  \<open>CAP_SYS_ADMIN\<close> is never stopped by the ceiling: it gets its file, with count 1,
  whenever the allocation and the security hook succeed.\<close>

theorem admission:
  "(get_nr_files s \<ge> max_files s \<and>
    percpu_counter_sum_positive (nr_files s) \<ge> uint (max_files s) \<and>
    \<not> capable_sys_admin e \<longrightarrow>
      fst (get_empty_filp e s) = Inl ResourceLimitExceeded \<and>
      files (snd (get_empty_filp e s)) = files s \<and>
      nr_files (snd (get_empty_filp e s)) = nr_files s) \<and>
   (get_nr_files s < max_files s \<and> zalloc_result e = Some a \<and>
    security_file_alloc_ret e = 0 \<longrightarrow> fst (get_empty_filp e s) = Inr a) \<and>
   (capable_sys_admin e \<and> zalloc_result e = Some a \<and> security_file_alloc_ret e = 0 \<longrightarrow>
      fst (get_empty_filp e s) = Inr a \<and>
      files (snd (get_empty_filp e s)) a =
        Some (zeroed_file\<lparr>f_cred := Some (current_cred e), f_count := 1\<rparr>))"
proof (intro conjI impI)
  assume "get_nr_files s \<ge> max_files s \<and>
    percpu_counter_sum_positive (nr_files s) \<ge> uint (max_files s) \<and> \<not> capable_sys_admin e"
  then have "over_limit e s" by (simp add: over_limit_def)
  then have eq: "get_empty_filp e s = (Inl ResourceLimitExceeded, over_path s)"
    by (rule get_empty_filp_over)
  show "fst (get_empty_filp e s) = Inl ResourceLimitExceeded"
    "files (snd (get_empty_filp e s)) = files s"
    "nr_files (snd (get_empty_filp e s)) = nr_files s"
    by (simp_all add: eq)
next
  assume h: "get_nr_files s < max_files s \<and> zalloc_result e = Some a \<and>
    security_file_alloc_ret e = 0"
  then have "\<not> over_limit e s" by (simp add: over_limit_def not_le)
  with h show "fst (get_empty_filp e s) = Inr a" by (simp add: get_empty_filp_ok)
next
  assume h: "capable_sys_admin e \<and> zalloc_result e = Some a \<and> security_file_alloc_ret e = 0"
  then have no: "\<not> over_limit e s" by (simp add: over_limit_def)
  from h no show "fst (get_empty_filp e s) = Inr a" by (simp add: get_empty_filp_ok)
  from h no show "files (snd (get_empty_filp e s)) a =
        Some (zeroed_file\<lparr>f_cred := Some (current_cred e), f_count := 1\<rparr>)"
    by (simp add: get_empty_filp_ok)
qed

text \<open>The theorem at the ceiling of three: with three files in the shared value the
  unprivileged caller is refused and the privileged one is served; with the three files in
  the delta of CPU 0 the approximate count is 0 and the unprivileged caller is served; and
  with a shared value of \<open>2^32 + 1\<close> the 32-bit \<open>long\<close> of \<open>get_nr_files\<close> is 1
  and the unprivileged caller is served.\<close>

theorem admission_witness:
  "get_nr_files ex_full \<ge> max_files ex_full \<and>
   percpu_counter_sum_positive (nr_files ex_full) \<ge> uint (max_files ex_full) \<and>
   \<not> capable_sys_admin ex_env \<and>
   fst (get_empty_filp ex_env ex_full) = Inl ResourceLimitExceeded \<and>
   capable_sys_admin (ex_env\<lparr>capable_sys_admin := True\<rparr>) \<and>
   fst (get_empty_filp (ex_env\<lparr>capable_sys_admin := True\<rparr>) ex_full) = Inr 70 \<and>
   get_nr_files ex_crowded < max_files ex_crowded \<and>
   fst (get_empty_filp ex_env ex_crowded) = Inr 70 \<and>
   percpu_counter_read_positive (nr_files ex_wrapped) = 4294967297 \<and>
   get_nr_files ex_wrapped < max_files ex_wrapped \<and>
   fst (get_empty_filp ex_env ex_wrapped) = Inr 70"
proof -
  have e: "\<not> capable_sys_admin ex_env" "zalloc_result ex_env = Some 70"
    "security_file_alloc_ret ex_env = 0"
    "capable_sys_admin (ex_env\<lparr>capable_sys_admin := True\<rparr>)"
    "zalloc_result (ex_env\<lparr>capable_sys_admin := True\<rparr>) = Some 70"
    "security_file_alloc_ret (ex_env\<lparr>capable_sys_admin := True\<rparr>) = 0"
    by (simp_all add: ex_env_def)
  from admission [of ex_full ex_env 70] admission [of ex_full "ex_env\<lparr>capable_sys_admin := True\<rparr>" 70]
    admission [of ex_crowded ex_env 70] admission [of ex_wrapped ex_env 70]
    e ex_counts ex_wrapped_counts
  show ?thesis by simp
qed

text \<open>After three increments on CPU 0 (batch size 32) the three files are counted in
  the delta of CPU 0 and the shared value is still 0. With a ceiling of three the exact
  count is at the ceiling, and the acquire of an unprivileged caller succeeds.\<close>

theorem unprivileged_admitted_counterexample:
  "nr_files ex_crowded =
     percpu_counter_add 32 0 1 (percpu_counter_add 32 0 1 (percpu_counter_add 32 0 1
       \<lparr>pc_count = 0, pc_counters = (\<lambda>_. 0), pc_cpus = 2\<rparr>)) \<and>
   percpu_counter_sum_positive (nr_files ex_crowded) = 3 \<and> max_files ex_crowded = 3 \<and>
   \<not> capable_sys_admin ex_env \<and>
   fst (get_empty_filp ex_env ex_crowded) = Inr 70"
proof (intro conjI)
  have no: "\<not> over_limit ex_env ex_crowded" by (simp add: over_limit_def ex_counts)
  have e: "zalloc_result ex_env = Some 70" "security_file_alloc_ret ex_env = 0"
    by (simp_all add: ex_env_def)
  show "nr_files ex_crowded =
     percpu_counter_add 32 0 1 (percpu_counter_add 32 0 1 (percpu_counter_add 32 0 1
       \<lparr>pc_count = 0, pc_counters = (\<lambda>_. 0), pc_cpus = 2\<rparr>))"
    by (simp add: ex_crowded_def percpu_counter_add_def)
  show "percpu_counter_sum_positive (nr_files ex_crowded) = 3" by (rule ex_counts)
  show "max_files ex_crowded = 3" by (rule ex_counts)
  show "\<not> capable_sys_admin ex_env" by (simp add: ex_env_def)
  show "fst (get_empty_filp ex_env ex_crowded) = Inr 70"
    by (rule get_empty_filp_ok(1) [OF no e])
qed

subsection \<open>C1: teardown runs once\<close>




end
